theory Spec2Isabelle
  imports Main "HOL-Library.Sublist"
begin

section \<open>JavaScript values\<close>

text \<open>
  Request bodies, query parameters, database rows and the objects the storage client returns
  are JavaScript values. A number is carried as its rendering \<open>String(n)\<close>: the handlers do no
  arithmetic on them. A string is a list of code units below 256. An object is the list of its
  own properties in insertion order.
\<close>

datatype jv =
    JUndefined
  | JNull
  | JBool bool
  | JNum string
  | JStr string
  | JArr "jv list"
  | JObj "(string \<times> jv) list"

fun truthy :: "jv \<Rightarrow> bool" where
  "truthy JUndefined = False"
| "truthy JNull = False"
| "truthy (JBool b) = b"
| "truthy (JNum s) = (s \<noteq> ''0'' \<and> s \<noteq> ''NaN'')"
| "truthy (JStr s) = (s \<noteq> [])"
| "truthy (JArr xs) = True"
| "truthy (JObj kvs) = True"

definition nullish :: "jv \<Rightarrow> bool" where
  "nullish v = (v = JUndefined \<or> v = JNull)"

text \<open>\<open>a || b\<close>\<close>

definition js_or :: "jv \<Rightarrow> jv \<Rightarrow> jv" where
  "js_or a b = (if truthy a then a else b)"

text \<open>\<open>v.k\<close> on a value that is not nullish; a primitive has none of the properties read here.\<close>

fun get_prop :: "jv \<Rightarrow> string \<Rightarrow> jv" where
  "get_prop (JObj kvs) k = (case map_of kvs k of Some v \<Rightarrow> v | None \<Rightarrow> JUndefined)"
| "get_prop v k = JUndefined"

text \<open>\<open>v?.k\<close>\<close>

definition opt_prop :: "jv \<Rightarrow> string \<Rightarrow> jv" where
  "opt_prop v k = (if nullish v then JUndefined else get_prop v k)"

text \<open>\<open>obj.k = v\<close> on a plain object: an existing property keeps its place.\<close>

definition set_prop :: "(string \<times> jv) list \<Rightarrow> string \<Rightarrow> jv \<Rightarrow> (string \<times> jv) list" where
  "set_prop kvs k v =
     (if k \<in> fst ` set kvs then map (\<lambda>(k', v'). if k' = k then (k', v) else (k', v')) kvs
      else kvs @ [(k, v)])"

fun digit_char :: "nat \<Rightarrow> char" where
  "digit_char n = char_of (48 + n)"

fun show_nat_fuel :: "nat \<Rightarrow> nat \<Rightarrow> string" where
  "show_nat_fuel 0 n = [digit_char (n mod 10)]"
| "show_nat_fuel (Suc k) n =
     (if n < 10 then [digit_char n] else show_nat_fuel k (n div 10) @ [digit_char (n mod 10)])"

text \<open>Decimal rendering of a loop index or an array index (\<open>n\<close> has at most \<open>n + 1\<close> digits).\<close>

definition show_nat :: "nat \<Rightarrow> string" where
  "show_nat n = show_nat_fuel n n"

text \<open>
  \<open>{ ...v }\<close>: the own enumerable properties of \<open>v\<close>. A nullish value or another primitive
  has none; an array or a string has its indices.
\<close>

fun spread :: "jv \<Rightarrow> (string \<times> jv) list" where
  "spread (JObj kvs) = kvs"
| "spread (JArr xs) = zip (map show_nat [0..<length xs]) xs"
| "spread (JStr s) = zip (map show_nat [0..<length s]) (map (\<lambda>c. JStr [c]) s)"
| "spread v = []"

text \<open>\<open>/^(http|https):\/\//.test(s)\<close>\<close>

definition is_http_url :: "string \<Rightarrow> bool" where
  "is_http_url s = (prefix ''http://'' s \<or> prefix ''https://'' s)"

text \<open>\<open>typeof key === 'string' && /^(http|https):\/\//.test(key)\<close>\<close>

definition already_url :: "jv \<Rightarrow> bool" where
  "already_url key = (case key of JStr s \<Rightarrow> is_http_url s | _ \<Rightarrow> False)"

section \<open>The managed backend and the runtime\<close>

datatype clause =
    Eq string jv
  | Ilike string string
  | In string "jv list"
  | Contains string "jv list"
  | Gte string jv
  | Lte string jv
  | Gt string jv
  | Order string bool
  | Limit nat
  | Returning
  | Single

datatype verb = Select string | Insert "jv list" | Update jv | Delete

text \<open>
  A query is what the chained builder calls have collected when it is awaited:
  \<open>supabase.from(tbl).verb(...)\<close> followed by its filters and modifiers in call order
  (\<open>Returning\<close> is the \<open>.select()\<close> after an insert or update, \<open>Order c True\<close> is ascending).
\<close>

record query =
  tbl :: string
  verb :: verb
  mods :: "clause list"

record upfile =
  originalname :: string
  mimetype :: string
  buffer :: string

datatype 'a attempt = Returned 'a | Raised jv

text \<open>
  Everything outside the repository is a parameter: the database and storage client (each call
  answers from the state \<open>'w\<close> of the outside world and may change it), the clock, the
  library functions \<open>Number\<close>, \<open>jwt.verify\<close> and \<open>path.extname\<close>, and whether
  \<open>process.env.NODE_ENV\<close> is \<open>'development'\<close>. A database call answers
  \<open>{ data, error }\<close> or throws; the storage bucket is always \<open>product_images\<close>.
\<close>

record 'w runtime =
  db :: "query \<Rightarrow> 'w \<Rightarrow> (jv \<times> jv) attempt \<times> 'w"
  upload :: "string \<Rightarrow> upfile \<Rightarrow> 'w \<Rightarrow> jv attempt \<times> 'w"
  getPublicUrl :: "jv \<Rightarrow> 'w \<Rightarrow> jv attempt \<times> 'w"
  createSignedUrl :: "jv \<Rightarrow> nat \<Rightarrow> 'w \<Rightarrow> (jv \<times> jv) attempt \<times> 'w"
  date_now :: "'w \<Rightarrow> string \<times> 'w"
  to_iso_string :: "'w \<Rightarrow> string \<times> 'w"
  number :: "jv \<Rightarrow> jv"
  jwt_verify :: "jv \<Rightarrow> jv attempt"
  path_extname :: "string \<Rightarrow> string"
  development :: bool

text \<open>
  What happens in a run: the calls against the backend, each with the answer it got, and the
  exceptions that the handler's own code raises (the TypeErrors of the JavaScript engine).
\<close>

datatype event =
    EDb query "(jv \<times> jv) attempt"
  | EUpload string upfile "jv attempt"
  | EPublicUrl jv "jv attempt"
  | ESignedUrl jv nat "(jv \<times> jv) attempt"
  | EThrown jv

record response =
  status :: nat
  json :: jv

section \<open>Programs\<close>

text \<open>
  A piece of handler code runs against the world and ends in a value, in a thrown exception or
  in \<open>return res...json(...)\<close>, which leaves the handler. It returns the new world and the
  events of the run, oldest first.
\<close>

datatype 'a outcome = Value 'a | Threw jv | Responded response

type_synonym ('w, 'a) prog = "'w \<Rightarrow> 'a outcome \<times> 'w \<times> event list"

definition ret :: "'a \<Rightarrow> ('w, 'a) prog" where
  "ret x = (\<lambda>w. (Value x, w, []))"

definition throw :: "jv \<Rightarrow> ('w, 'a) prog" where
  "throw e = (\<lambda>w. (Threw e, w, [EThrown e]))"

definition respond :: "nat \<Rightarrow> jv \<Rightarrow> ('w, 'a) prog" where
  "respond st body = (\<lambda>w. (Responded \<lparr>status = st, json = body\<rparr>, w, []))"

definition bind :: "('w, 'a) prog \<Rightarrow> ('a \<Rightarrow> ('w, 'b) prog) \<Rightarrow> ('w, 'b) prog" where
  "bind m f = (\<lambda>w. case m w of
      (Value a, w', es) \<Rightarrow> (case f a w' of (r, w'', es') \<Rightarrow> (r, w'', es @ es'))
    | (Threw e, w', es) \<Rightarrow> (Threw e, w', es)
    | (Responded r, w', es) \<Rightarrow> (Responded r, w', es))"

text \<open>\<open>try { m } catch (e) { h e }\<close>; a \<open>return\<close> inside \<open>m\<close> is not caught.\<close>

definition try_catch :: "('w, 'a) prog \<Rightarrow> (jv \<Rightarrow> ('w, 'a) prog) \<Rightarrow> ('w, 'a) prog" where
  "try_catch m h = (\<lambda>w. case m w of
      (Threw e, w', es) \<Rightarrow> (case h e w' of (r, w'', es') \<Rightarrow> (r, w'', es @ es'))
    | (Value a, w', es) \<Rightarrow> (Value a, w', es)
    | (Responded r, w', es) \<Rightarrow> (Responded r, w', es))"

fun mapM :: "('a \<Rightarrow> ('w, 'b) prog) \<Rightarrow> 'a list \<Rightarrow> ('w, 'b list) prog" where
  "mapM f [] = ret []"
| "mapM f (x # xs) = bind (f x) (\<lambda>y. bind (mapM f xs) (\<lambda>ys. ret (y # ys)))"

definition attempt_outcome :: "'a attempt \<Rightarrow> 'a outcome" where
  "attempt_outcome a = (case a of Returned x \<Rightarrow> Value x | Raised e \<Rightarrow> Threw e)"

definition db_call :: "'w runtime \<Rightarrow> query \<Rightarrow> ('w, jv \<times> jv) prog" where
  "db_call rt q = (\<lambda>w. case db rt q w of (a, w') \<Rightarrow> (attempt_outcome a, w', [EDb q a]))"

definition upload_call :: "'w runtime \<Rightarrow> string \<Rightarrow> upfile \<Rightarrow> ('w, jv) prog" where
  "upload_call rt key f =
     (\<lambda>w. case upload rt key f w of (a, w') \<Rightarrow> (attempt_outcome a, w', [EUpload key f a]))"

definition public_url_call :: "'w runtime \<Rightarrow> jv \<Rightarrow> ('w, jv) prog" where
  "public_url_call rt key =
     (\<lambda>w. case getPublicUrl rt key w of (a, w') \<Rightarrow> (attempt_outcome a, w', [EPublicUrl key a]))"

definition signed_url_call :: "'w runtime \<Rightarrow> jv \<Rightarrow> nat \<Rightarrow> ('w, jv \<times> jv) prog" where
  "signed_url_call rt key expiresIn =
     (\<lambda>w. case createSignedUrl rt key expiresIn w of
        (a, w') \<Rightarrow> (attempt_outcome a, w', [ESignedUrl key expiresIn a]))"

definition now_call :: "'w runtime \<Rightarrow> ('w, string) prog" where
  "now_call rt = (\<lambda>w. case date_now rt w of (t, w') \<Rightarrow> (Value t, w', []))"

definition iso_call :: "'w runtime \<Rightarrow> ('w, string) prog" where
  "iso_call rt = (\<lambda>w. case to_iso_string rt w of (t, w') \<Rightarrow> (Value t, w', []))"

definition type_error :: "string \<Rightarrow> jv" where
  "type_error msg = JObj [(''name'', JStr ''TypeError''), (''message'', JStr msg)]"

section \<open>Accessible URLs (products.js)\<close>

text \<open>\<open>pub?.data?.publicUrl || pub?.publicURL || null\<close>\<close>

definition pub_or_null :: "jv \<Rightarrow> jv" where
  "pub_or_null pub =
     js_or (js_or (opt_prop (opt_prop pub ''data'') ''publicUrl'') (opt_prop pub ''publicURL'')) JNull"

definition makeAccessibleUrl :: "'w runtime \<Rightarrow> jv \<Rightarrow> ('w, jv) prog" where
  "makeAccessibleUrl rt key =
     try_catch
       (if \<not> truthy key then ret JNull
        else if already_url key then ret key
        else
          bind (public_url_call rt key) (\<lambda>pub.
          if truthy (opt_prop (opt_prop pub ''data'') ''publicUrl'')
            then ret (get_prop (get_prop pub ''data'') ''publicUrl'')
          else if truthy (opt_prop pub ''publicURL'') then ret (get_prop pub ''publicURL'')
          else
            bind (signed_url_call rt key (60 * 60)) (\<lambda>(signed, signErr).
            if truthy signErr then ret (pub_or_null pub)
            else if truthy (opt_prop signed ''signedURL'') then ret (get_prop signed ''signedURL'')
            else ret (pub_or_null pub))))
       (\<lambda>e.
          try_catch
            (bind (public_url_call rt key) (\<lambda>pub. ret (pub_or_null pub)))
            (\<lambda>e2. ret JNull))"

text \<open>
  The image keys of a row are mapped with \<open>Promise.all\<close>; the results keep the order of the
  keys, and the model issues the calls key by key.
\<close>

definition variation_image_url :: "'w runtime \<Rightarrow> jv \<Rightarrow> ('w, jv) prog" where
  "variation_image_url rt imgKey =
     try_catch
       (bind (public_url_call rt imgKey) (\<lambda>pub.
          if truthy (opt_prop (opt_prop pub ''data'') ''publicUrl'')
            then ret (get_prop (get_prop pub ''data'') ''publicUrl'')
          else if truthy (opt_prop pub ''publicURL'') then ret (get_prop pub ''publicURL'')
          else ret JNull))
       (\<lambda>e. ret JNull)"

text \<open>\<open>variationWithAccessibleImages\<close> of products.js.\<close>

definition variationWithAccessibleImages :: "'w runtime \<Rightarrow> jv \<Rightarrow> ('w, jv) prog" where
  "variationWithAccessibleImages rt variation =
     (let clone = spread variation in
      bind (case get_prop (JObj clone) ''images'' of
              JArr (k # ks) \<Rightarrow>
                bind (mapM (variation_image_url rt) (k # ks)) (\<lambda>urls. ret (filter truthy urls))
            | _ \<Rightarrow> ret []) (\<lambda>images.
      let clone1 = set_prop clone ''images'' (JArr images);
          clone2 = set_prop clone1 ''image'' (case images of [] \<Rightarrow> JNull | u # us \<Rightarrow> u)
      in ret (JObj clone2)))"

definition variations_of_product :: "jv \<Rightarrow> query" where
  "variations_of_product product_id =
     \<lparr>tbl = ''product_variations'', verb = Select ''*'',
      mods = [Eq ''product_id'' product_id, Eq ''is_active'' (JBool True),
              Order ''color'' True, Order ''size'' True]\<rparr>"

definition productWithAccessibleImages :: "'w runtime \<Rightarrow> jv \<Rightarrow> bool \<Rightarrow> ('w, jv) prog" where
  "productWithAccessibleImages rt product includeVariations =
     (let clone = spread product in
      bind (case get_prop (JObj clone) ''images'' of
              JArr (k # ks) \<Rightarrow>
                bind (mapM (makeAccessibleUrl rt) (k # ks)) (\<lambda>urls. ret (filter truthy urls))
            | _ \<Rightarrow> ret []) (\<lambda>images.
      let clone1 = set_prop clone ''images'' (JArr images);
          clone2 = set_prop clone1 ''image'' (case images of [] \<Rightarrow> JNull | u # us \<Rightarrow> u)
      in if includeVariations \<and> truthy (get_prop (JObj clone2) ''id'') then
           try_catch
             (bind (db_call rt (variations_of_product (get_prop (JObj clone2) ''id'')))
                (\<lambda>(variations, error).
                if \<not> truthy error \<and> truthy variations then
                  (case variations of
                     JArr vs \<Rightarrow>
                       bind (mapM (variationWithAccessibleImages rt) vs) (\<lambda>variationsWithUrls.
                       ret (JObj (set_prop clone2 ''variations'' (JArr variationsWithUrls))))
                   | _ \<Rightarrow> throw (type_error ''variations.map is not a function''))
                else ret (JObj clone2)))
             (\<lambda>err. ret (JObj (set_prop clone2 ''variations'' (JArr []))))
         else ret (JObj clone2)))"

section \<open>Strings\<close>

text \<open>
  \<open>s.split(c)\<close> for a one-character separator. The result is never empty: the split of
  the empty string is the list of the empty string.
\<close>

fun split_on :: "char \<Rightarrow> string \<Rightarrow> string list" where
  "split_on c [] = [[]]"
| "split_on c (x # xs) =
     (if x = c then [] # split_on c xs
      else (case split_on c xs of [] \<Rightarrow> [[x]] | y # ys \<Rightarrow> (x # y) # ys))"

text \<open>\<open>s.includes(sub)\<close>\<close>

fun str_includes :: "string \<Rightarrow> string \<Rightarrow> bool" where
  "str_includes [] sub = (sub = [])"
| "str_includes (c # cs) sub = (prefix sub (c # cs) \<or> str_includes cs sub)"

text \<open>The white space \<open>trim\<close> removes, among the code units below 256.\<close>

definition is_ws :: "char \<Rightarrow> bool" where
  "is_ws c = (of_char c \<in> {9, 10, 11, 12, 13, 32, 160 :: nat})"

text \<open>\<open>s.trim() === ''\<close>\<close>

definition blank :: "string \<Rightarrow> bool" where
  "blank s = list_all is_ws s"

fun join_with :: "string \<Rightarrow> string list \<Rightarrow> string" where
  "join_with sep [] = []"
| "join_with sep [x] = x"
| "join_with sep (x # y # ys) = x @ sep @ join_with sep (y # ys)"

text \<open>The string a template literal makes of a value.\<close>

fun js_string :: "jv \<Rightarrow> string" where
  "js_string JUndefined = ''undefined''"
| "js_string JNull = ''null''"
| "js_string (JBool b) = (if b then ''true'' else ''false'')"
| "js_string (JNum s) = s"
| "js_string (JStr s) = s"
| "js_string (JArr xs) = join_with '','' (map (\<lambda>x. if nullish x then [] else js_string x) xs)"
| "js_string (JObj kvs) = ''[object Object]''"

text \<open>\<open>v.length\<close> of a value that is not nullish.\<close>

fun js_length :: "jv \<Rightarrow> jv" where
  "js_length (JArr xs) = JNum (show_nat (length xs))"
| "js_length (JStr s) = JNum (show_nat (length s))"
| "js_length v = get_prop v ''length''"

text \<open>\<open>v.k\<close> where the code reads it with no guard: a nullish \<open>v\<close> throws.\<close>

definition read_prop :: "jv \<Rightarrow> string \<Rightarrow> ('w, jv) prog" where
  "read_prop v k =
     (if nullish v then throw (type_error (''Cannot read properties of '' @ js_string v))
      else ret (get_prop v k))"

text \<open>\<open>v.k = x\<close> on a row; on a primitive the assignment is dropped without an error.\<close>

definition assign_prop :: "jv \<Rightarrow> string \<Rightarrow> jv \<Rightarrow> jv" where
  "assign_prop v k x = (case v of JObj kvs \<Rightarrow> JObj (set_prop kvs k x) | _ \<Rightarrow> v)"

text \<open>A computation of the handler's own code that returns or raises.\<close>

definition lift_attempt :: "'a attempt \<Rightarrow> ('w, 'a) prog" where
  "lift_attempt a = (case a of Returned x \<Rightarrow> ret x | Raised e \<Rightarrow> throw e)"

text \<open>\<open>[...v]\<close>\<close>

definition spread_iter :: "jv \<Rightarrow> jv list attempt" where
  "spread_iter v =
     (case v of
        JArr xs \<Rightarrow> Returned xs
      | JStr s \<Rightarrow> Returned (map (\<lambda>c. JStr [c]) s)
      | _ \<Rightarrow> Raised (type_error (js_string v @ '' is not iterable'')))"

section \<open>Requests\<close>

text \<open>
  What a handler reads of the request once the router's parsers have run: \<open>req.user\<close>, the
  Authorization header, the one route parameter, \<open>req.body\<close> and \<open>req.query\<close> as objects,
  \<open>req.files\<close> and \<open>req.file\<close> (\<open>None\<close> where the parser has set none).
\<close>

record request =
  user :: jv
  authorization :: "string option"
  param :: string
  body :: "(string \<times> jv) list"
  query_params :: "(string \<times> jv) list"
  files :: "upfile list option"
  single_file :: "upfile option"

definition body_field :: "request \<Rightarrow> string \<Rightarrow> jv" where
  "body_field req k = get_prop (JObj (body req)) k"

definition query_field :: "request \<Rightarrow> string \<Rightarrow> jv" where
  "query_field req k = get_prop (JObj (query_params req)) k"

text \<open>\<open>res.json(body)\<close>\<close>

definition respond_json :: "jv \<Rightarrow> ('w, 'a) prog" where
  "respond_json b = respond 200 b"

section \<open>Message literals\<close>

definition msg_id_invalido :: string where
  "msg_id_invalido = ''ID do produto inv'' @ [CHR 0xE1] @ ''lido''"

definition msg_produto_nao_encontrado :: string where
  "msg_produto_nao_encontrado = ''Produto n'' @ [CHR 0xE3] @ ''o encontrado''"

definition msg_erro_upload_imagens :: string where
  "msg_erro_upload_imagens = ''Erro ao fazer upload das imagens''"

definition msg_imagens_nao_salvas :: string where
  "msg_imagens_nao_salvas =
     '' mas imagens n'' @ [CHR 0xE3] @ ''o foram salvas. Configure as pol'' @ [CHR 0xED]
       @ ''ticas de storage no Supabase.''"

definition msg_campos_obrigatorios :: string where
  "msg_campos_obrigatorios = ''Campos obrigat'' @ [CHR 0xF3] @ ''rios: product_id e name''"

section \<open>The image upload loop\<close>

text \<open>
  \<open>m?.includes(a) || m?.includes(b) || ...\<close> for a message \<open>m\<close>: false for a nullish
  \<open>m\<close>, substring search on a string, membership on an array, and a TypeError on anything
  else, which has no \<open>includes\<close>.
\<close>

definition message_includes :: "jv \<Rightarrow> string list \<Rightarrow> bool attempt" where
  "message_includes m subs =
     (case m of
        JUndefined \<Rightarrow> Returned False
      | JNull \<Rightarrow> Returned False
      | JStr s \<Rightarrow> Returned (list_ex (str_includes s) subs)
      | JArr xs \<Rightarrow> Returned (list_ex (\<lambda>sub. JStr sub \<in> set xs) subs)
      | _ \<Rightarrow> Raised (type_error ''message?.includes is not a function''))"

text \<open>
  The test on \<open>result.error\<close> that lets the request go on without the image; the \<open>||\<close>
  chain stops at the first true operand.
\<close>

definition storage_error_tolerated :: "jv \<Rightarrow> bool attempt" where
  "storage_error_tolerated err =
     (if get_prop err ''statusCode'' = JStr ''403'' \<or> get_prop err ''statusCode'' = JStr ''500''
        then Returned True
      else message_includes (get_prop err ''message'')
             [''row-level security'', ''policy'', ''Internal Server Error''])"

text \<open>\<open>(f.originalname && f.originalname.split('.').pop()) || 'jpg'\<close>\<close>

definition file_ext :: "upfile \<Rightarrow> string" where
  "file_ext f =
     (if originalname f = [] then ''jpg''
      else (let e = last (split_on (CHR ''.'') (originalname f)) in if e = [] then ''jpg'' else e))"

text \<open>
  The \<open>for\<close> loop over \<open>files\<close> that the four upload handlers share, from index \<open>i\<close> with the
  keys pushed so far. \<open>dir\<close> evaluates the first part of the key template
  (\<open>products/${prod.id}\<close>, \<open>variations/${product_id}\<close>) in each round. The loop ends with the
  keys (at the end of the files, or at \<open>break\<close>), or leaves the handler with status 500.
\<close>

fun upload_loop ::
  "'w runtime \<Rightarrow> ('w, string) prog \<Rightarrow> nat \<Rightarrow> upfile list \<Rightarrow> string list \<Rightarrow> ('w, string list) prog"
where
  "upload_loop rt dir i [] imageKeys = ret imageKeys"
| "upload_loop rt dir i (f # fs) imageKeys =
     bind dir (\<lambda>d.
     bind (now_call rt) (\<lambda>t.
     let key = d @ ''/'' @ t @ ''_'' @ show_nat i @ ''.'' @ file_ext f in
     bind (upload_call rt key f) (\<lambda>result.
     bind (read_prop result ''error'') (\<lambda>err.
     if truthy err then
       bind (lift_attempt (storage_error_tolerated err)) (\<lambda>tolerated.
       if tolerated then ret imageKeys
       else respond 500 (JObj [(''error'', JStr msg_erro_upload_imagens),
                               (''detail'', js_or (get_prop err ''message'') err)]))
     else upload_loop rt dir (i + 1) fs (imageKeys @ [key])))))"

section \<open>products.js\<close>

subsection \<open>The router's middleware\<close>

text \<open>
  \<open>router.use\<close> of products.js: with an Authorization header, \<open>req.user\<close> becomes the payload
  of the token after the first space when \<open>jwt.verify\<close> accepts it; otherwise the request goes
  on as it came.
\<close>

definition attach_user :: "'w runtime \<Rightarrow> request \<Rightarrow> request" where
  "attach_user rt req =
     (case authorization req of
        None \<Rightarrow> req
      | Some auth \<Rightarrow>
          if auth = [] then req
          else (let parts = split_on (CHR '' '') auth;
                    token = (if 1 < length parts then JStr (parts ! 1) else JUndefined)
                in case jwt_verify rt token of
                     Returned payload \<Rightarrow> req\<lparr>user := payload\<rparr>
                   | Raised err \<Rightarrow> req))"

text \<open>\<open>req.user && req.user.role === 'admin'\<close>\<close>

definition isAdmin :: "request \<Rightarrow> bool" where
  "isAdmin req = (truthy (user req) \<and> get_prop (user req) ''role'' = JStr ''admin'')"

subsection \<open>POST /\<close>

definition catch_500 :: "jv \<Rightarrow> ('w, 'a) prog" where
  "catch_500 err = respond 500 (JObj [(''error'', get_prop err ''message'')])"

definition req_files :: "request \<Rightarrow> upfile list" where
  "req_files req = (case files req of None \<Rightarrow> [] | Some fs \<Rightarrow> fs)"

definition products_post :: "'w runtime \<Rightarrow> request \<Rightarrow> ('w, unit) prog" where
  "products_post rt req =
     try_catch
       (let name = body_field req ''name''; description = body_field req ''description'';
            price = body_field req ''price''; stock = body_field req ''stock'';
            type = body_field req ''type''; color = body_field req ''color'';
            sizes = body_field req ''sizes''; brand = body_field req ''brand'';
            sizesArray = (if truthy sizes
                          then (case sizes of JArr xs \<Rightarrow> xs | JStr s \<Rightarrow> [sizes] | _ \<Rightarrow> [])
                          else []);
            productInsert = JObj
              [(''name'', name), (''description'', description),
               (''price'', number rt (js_or price (JNum ''0''))),
               (''stock'', number rt (js_or stock (JNum ''0''))),
               (''type'', js_or type JNull), (''color'', js_or color JNull),
               (''brand'', js_or brand JNull),
               (''sizes'', JArr (if sizesArray \<noteq> [] then sizesArray else []))]
        in
        bind (db_call rt \<lparr>tbl = ''products'', verb = Insert [productInsert],
                          mods = [Returning, Single]\<rparr>) (\<lambda>(prod, prodErr).
        if truthy prodErr then respond 400 (JObj [(''error'', get_prop prodErr ''message'')])
        else
          bind (upload_loop rt
                  (bind (read_prop prod ''id'') (\<lambda>pid. ret (''products/'' @ js_string pid)))
                  0 (req_files req) []) (\<lambda>imageKeys.
          bind (if imageKeys \<noteq> [] then
                  bind (read_prop prod ''id'') (\<lambda>pid.
                  bind (db_call rt \<lparr>tbl = ''products'',
                                    verb = Update (JObj [(''images'', JArr (map JStr imageKeys))]),
                                    mods = [Eq ''id'' pid, Returning, Single]\<rparr>)
                    (\<lambda>(updatedProd, updateErr).
                    if truthy updateErr then ret prod
                    else bind (read_prop updatedProd ''images'') (\<lambda>imgs.
                         ret (assign_prop prod ''images'' imgs))))
                else ret prod) (\<lambda>prod.
          try_catch
            (bind (productWithAccessibleImages rt prod False) (\<lambda>product.
             if req_files req \<noteq> []
                \<and> (\<not> truthy (get_prop prod ''images'')
                    \<or> js_length (get_prop prod ''images'') = JNum ''0'')
             then respond_json (JObj [(''product'', product),
                    (''warning'', JStr (''Produto criado'' @ msg_imagens_nao_salvas))])
             else respond_json (JObj [(''product'', product)])))
            (\<lambda>e. respond_json (JObj [(''product'', prod)]))))))
       catch_500"

subsection \<open>GET /\<close>

definition abind :: "'a attempt \<Rightarrow> ('a \<Rightarrow> 'b attempt) \<Rightarrow> 'b attempt" where
  "abind a f = (case a of Returned x \<Rightarrow> f x | Raised e \<Rightarrow> Raised e)"

text \<open>\<open>v.split(',').filter(b => b.trim() !== '')\<close>; only a string has \<open>split\<close>.\<close>

definition split_csv :: "string \<Rightarrow> jv \<Rightarrow> string list attempt" where
  "split_csv name v =
     (case v of
        JStr s \<Rightarrow> Returned (filter (\<lambda>b. \<not> blank b) (split_on (CHR '','') s))
      | _ \<Rightarrow> Raised (type_error (name @ ''.split is not a function'')))"

definition active_clauses :: "request \<Rightarrow> clause list" where
  "active_clauses req = (if \<not> isAdmin req then [Eq ''is_active'' (JBool True)] else [])"

definition search_clauses :: "request \<Rightarrow> clause list" where
  "search_clauses req =
     (let search = query_field req ''search'' in
      if truthy search then [Ilike ''name'' (''%'' @ js_string search @ ''%'')] else [])"

definition brand_clauses :: "request \<Rightarrow> clause list" where
  "brand_clauses req =
     (let brand = query_field req ''brand'' in if truthy brand then [Eq ''brand'' brand] else [])"

definition brands_clauses :: "request \<Rightarrow> clause list attempt" where
  "brands_clauses req =
     (let brands = query_field req ''brands'' in
      if truthy brands then
        abind (split_csv ''brands'' brands) (\<lambda>brandsArray.
        Returned (if brandsArray \<noteq> [] then [In ''brand'' (map JStr brandsArray)] else []))
      else Returned [])"

definition types_clauses :: "request \<Rightarrow> clause list attempt" where
  "types_clauses req =
     (let types = query_field req ''types'' in
      if truthy types then
        abind (split_csv ''types'' types) (\<lambda>typesArray.
        Returned (if typesArray \<noteq> [] then [In ''type'' (map JStr typesArray)] else []))
      else Returned [])"

definition categoryTypeMap :: "(string \<times> string list) list" where
  "categoryTypeMap =
     [(''roupas'', [''camisa'', ''moleton'', ''vestido'', ''calca'', ''calca-normal'',
                    ''calca-jogador'', ''bermuda-jeans'', ''bermuda-jogador'', ''bermuda-tectel'',
                    ''bermuda-elastano'', ''blusa-times'', ''conjunto'', ''kit'', ''short'',
                    ''camiseta'']),
      (''calcados'', [''sapato'']),
      (''acessorios'', [''bone'', ''acessorio''])]"

text \<open>
  \<open>categoryTypeMap[category]\<close> is also truthy for the names every object inherits; a value
  found there is not iterable, and \<open>push(...)\<close> of it throws.
\<close>

definition object_prototype_keys :: "string list" where
  "object_prototype_keys =
     [''constructor'', ''__proto__'', ''hasOwnProperty'', ''isPrototypeOf'',
      ''propertyIsEnumerable'', ''toLocaleString'', ''toString'', ''valueOf'',
      ''__defineGetter__'', ''__defineSetter__'', ''__lookupGetter__'', ''__lookupSetter__'']"

fun category_types :: "string list \<Rightarrow> string list attempt" where
  "category_types [] = Returned []"
| "category_types (category # cs) =
     (case map_of categoryTypeMap category of
        Some ts \<Rightarrow> abind (category_types cs) (\<lambda>more. Returned (ts @ more))
      | None \<Rightarrow>
          if category \<in> set object_prototype_keys
          then Raised (type_error ''categoryTypeMap[category] is not iterable'')
          else category_types cs)"

definition categories_clauses :: "request \<Rightarrow> clause list attempt" where
  "categories_clauses req =
     (let categories = query_field req ''categories'' in
      if truthy categories then
        abind (split_csv ''categories'' categories) (\<lambda>categoriesArray.
        if categoriesArray \<noteq> [] then
          abind (category_types categoriesArray) (\<lambda>allTypes.
          Returned (if allTypes \<noteq> [] then [In ''type'' (map JStr allTypes)] else []))
        else Returned [])
      else Returned [])"

definition sizes_clauses :: "request \<Rightarrow> clause list attempt" where
  "sizes_clauses req =
     (let sizes = query_field req ''sizes'' in
      if truthy sizes then
        abind (split_csv ''sizes'' sizes) (\<lambda>sizesArray.
        Returned (if sizesArray \<noteq> [] then [Contains ''sizes'' (map JStr sizesArray)] else []))
      else Returned [])"

definition colors_clauses :: "request \<Rightarrow> clause list attempt" where
  "colors_clauses req =
     (let colors = query_field req ''colors'' in
      if truthy colors then
        abind (split_csv ''colors'' colors) (\<lambda>colorsArray.
        Returned (if colorsArray \<noteq> [] then [In ''color'' (map JStr colorsArray)] else []))
      else Returned [])"

definition price_clauses :: "request \<Rightarrow> clause list" where
  "price_clauses req =
     (let priceRange = query_field req ''priceRange'' in
      if truthy priceRange \<and> priceRange \<noteq> JStr ''all'' then
        (if priceRange = JStr ''0-50'' then [Gte ''price'' (JNum ''0''), Lte ''price'' (JNum ''50'')]
         else if priceRange = JStr ''50-100''
           then [Gt ''price'' (JNum ''50''), Lte ''price'' (JNum ''100'')]
         else if priceRange = JStr ''100-200''
           then [Gt ''price'' (JNum ''100''), Lte ''price'' (JNum ''200'')]
         else if priceRange = JStr ''200+'' then [Gt ''price'' (JNum ''200'')]
         else [])
      else [])"

definition discount_clauses :: "request \<Rightarrow> clause list" where
  "discount_clauses req =
     (let discountRange = query_field req ''discountRange'' in
      if truthy discountRange \<and> discountRange \<noteq> JStr ''all'' then
        (if discountRange = JStr ''10-30''
           then [Gte ''discount'' (JNum ''10''), Lte ''discount'' (JNum ''30'')]
         else if discountRange = JStr ''30-50''
           then [Gt ''discount'' (JNum ''30''), Lte ''discount'' (JNum ''50'')]
         else if discountRange = JStr ''50+'' then [Gt ''discount'' (JNum ''50'')]
         else [])
      else [])"

definition sort_clause :: "request \<Rightarrow> clause" where
  "sort_clause req =
     (let sort = js_or (query_field req ''sort'') (JStr ''newest'') in
      if sort = JStr ''price_asc'' then Order ''price'' True
      else if sort = JStr ''price_desc'' then Order ''price'' False
      else if sort = JStr ''name_asc'' then Order ''name'' True
      else if sort = JStr ''name_desc'' then Order ''name'' False
      else Order ''created_at'' False)"

text \<open>
  The query GET / has built when it awaits it, or the exception that stopped the building.
  The clauses are in the order of the builder calls.
\<close>

definition list_query :: "request \<Rightarrow> query attempt" where
  "list_query req =
     abind (brands_clauses req) (\<lambda>brands.
     abind (types_clauses req) (\<lambda>types.
     abind (categories_clauses req) (\<lambda>categories.
     abind (sizes_clauses req) (\<lambda>sizes.
     abind (colors_clauses req) (\<lambda>colors.
     Returned \<lparr>tbl = ''products'', verb = Select ''*'',
               mods = active_clauses req @ search_clauses req @ brand_clauses req @ brands
                      @ types @ categories @ sizes @ colors @ price_clauses req
                      @ discount_clauses req @ [sort_clause req]\<rparr>)))))"

definition products_get_list :: "'w runtime \<Rightarrow> request \<Rightarrow> ('w, unit) prog" where
  "products_get_list rt req =
     try_catch
       (bind (lift_attempt (list_query req)) (\<lambda>q.
        bind (db_call rt q) (\<lambda>(data, error).
        if truthy error then respond 500 (JObj [(''error'', get_prop error ''message'')])
        else
          bind (case js_or data (JArr []) of
                  JArr ps \<Rightarrow> mapM (\<lambda>p. productWithAccessibleImages rt p False) ps
                | _ \<Rightarrow> throw (type_error ''(data || []).map is not a function''))
            (\<lambda>products. respond_json (JObj [(''products'', JArr products)])))))
       catch_500"

subsection \<open>GET /:id\<close>

definition product_by_id :: "request \<Rightarrow> query" where
  "product_by_id req =
     \<lparr>tbl = ''products'', verb = Select ''*'',
      mods = [Eq ''id'' (JStr (param req))] @ active_clauses req @ [Single]\<rparr>"

definition products_get_id :: "'w runtime \<Rightarrow> request \<Rightarrow> ('w, unit) prog" where
  "products_get_id rt req =
     try_catch
       (if param req = [] then respond 400 (JObj [(''error'', JStr msg_id_invalido)])
        else
          bind (db_call rt (product_by_id req)) (\<lambda>(data, error).
          if truthy error then
            (if get_prop error ''code'' = JStr ''PGRST116'' \<or> get_prop error ''code'' = JStr ''PGRST117''
                \<or> str_includes (js_string (get_prop error ''message'')) ''No rows''
             then respond 404 (JObj [(''error'', JStr msg_produto_nao_encontrado)])
             else respond 500 (JObj [(''error'', get_prop error ''message'')]))
          else if \<not> truthy data then respond 404 (JObj [(''error'', JStr msg_produto_nao_encontrado)])
          else
            bind (productWithAccessibleImages rt data True) (\<lambda>product.
            respond_json (JObj [(''product'', product)]))))
       catch_500"

subsection \<open>PUT /:id\<close>

text \<open>The \<open>changes\<close> object before the images: one property for each body field that is not undefined.\<close>

definition product_changes :: "'w runtime \<Rightarrow> request \<Rightarrow> (string \<times> jv) list" where
  "product_changes rt req =
     (let name = body_field req ''name''; description = body_field req ''description'';
          price = body_field req ''price''; stock = body_field req ''stock'';
          type = body_field req ''type''; color = body_field req ''color'';
          sizes = body_field req ''sizes''; brand = body_field req ''brand''
      in (if name \<noteq> JUndefined then [(''name'', name)] else [])
       @ (if description \<noteq> JUndefined then [(''description'', description)] else [])
       @ (if price \<noteq> JUndefined then [(''price'', number rt (js_or price (JNum ''0'')))] else [])
       @ (if stock \<noteq> JUndefined then [(''stock'', number rt (js_or stock (JNum ''0'')))] else [])
       @ (if type \<noteq> JUndefined then [(''type'', js_or type JNull)] else [])
       @ (if color \<noteq> JUndefined then [(''color'', js_or color JNull)] else [])
       @ (if brand \<noteq> JUndefined then [(''brand'', js_or brand JNull)] else [])
       @ (if sizes \<noteq> JUndefined then
            [(''sizes'', (case sizes of
                            JArr xs \<Rightarrow> sizes
                          | JStr s \<Rightarrow> (if truthy sizes then JArr [sizes] else JArr [])
                          | _ \<Rightarrow> JArr []))]
          else []))"

text \<open>\<open>existing?.images || []\<close>\<close>

definition existing_images :: "jv \<Rightarrow> jv" where
  "existing_images existing = js_or (opt_prop existing ''images'') (JArr [])"

definition products_put :: "'w runtime \<Rightarrow> request \<Rightarrow> ('w, unit) prog" where
  "products_put rt req =
     try_catch
       (let id = param req; changes = product_changes rt req in
        bind (if req_files req \<noteq> [] then
                bind (upload_loop rt (ret (''products/'' @ id)) 0 (req_files req) [])
                  (\<lambda>imageKeys.
                  if imageKeys \<noteq> [] then
                    bind (db_call rt \<lparr>tbl = ''products'', verb = Select ''images'',
                                      mods = [Eq ''id'' (JStr id), Single]\<rparr>)
                      (\<lambda>(existingProduct, ignored).
                      bind (lift_attempt (spread_iter (existing_images existingProduct)))
                        (\<lambda>existingImages.
                        ret (set_prop changes ''images''
                               (JArr (existingImages @ map JStr imageKeys)))))
                  else ret changes)
              else ret changes) (\<lambda>changes.
        bind (db_call rt \<lparr>tbl = ''products'', verb = Update (JObj changes),
                          mods = [Eq ''id'' (JStr id), Returning, Single]\<rparr>) (\<lambda>(data, error).
        if truthy error then respond 400 (JObj [(''error'', get_prop error ''message'')])
        else
          try_catch
            (bind (productWithAccessibleImages rt data False) (\<lambda>product.
             if req_files req \<noteq> []
                \<and> (\<not> truthy (get_prop (JObj changes) ''images'')
                    \<or> js_length (get_prop (JObj changes) ''images'') = JNum ''0'')
             then respond_json (JObj [(''product'', product),
                    (''warning'', JStr (''Produto atualizado'' @ msg_imagens_nao_salvas))])
             else respond_json (JObj [(''product'', product)])))
            (\<lambda>e. respond_json (JObj [(''product'', data)])))))
       catch_500"

subsection \<open>DELETE /:id\<close>

text \<open>This handler has no \<open>try\<close>: an exception of the database call leaves it with no response.\<close>

definition products_delete :: "'w runtime \<Rightarrow> request \<Rightarrow> ('w, unit) prog" where
  "products_delete rt req =
     bind (db_call rt \<lparr>tbl = ''products'', verb = Delete, mods = [Eq ''id'' (JStr (param req))]\<rparr>)
       (\<lambda>(ignored, error).
       if truthy error then respond 400 (JObj [(''error'', get_prop error ''message'')])
       else respond_json (JObj [(''ok'', JBool True)]))"

section \<open>The variations router\<close>

text \<open>\<open>variationWithAccessibleImages\<close> of the variations router.\<close>

definition variations_variationWithAccessibleImages :: "'w runtime \<Rightarrow> jv \<Rightarrow> ('w, jv) prog" where
  "variations_variationWithAccessibleImages rt variation =
     (let clone = spread variation in
      bind (case get_prop (JObj clone) ''images'' of
              JArr (k # ks) \<Rightarrow>
                bind (mapM (variation_image_url rt) (k # ks)) (\<lambda>urls. ret (filter truthy urls))
            | _ \<Rightarrow> ret []) (\<lambda>images.
      ret (JObj (set_prop clone ''images'' (JArr images)))))"

subsection \<open>POST /\<close>

definition variations_post :: "'w runtime \<Rightarrow> request \<Rightarrow> ('w, unit) prog" where
  "variations_post rt req =
     try_catch
       (let product_id = body_field req ''product_id''; name = body_field req ''name'';
            color = body_field req ''color''; size = body_field req ''size'';
            price = body_field req ''price''; stock = body_field req ''stock''
        in
        if \<not> truthy product_id \<or> \<not> truthy name
          then respond 400 (JObj [(''error'', JStr msg_campos_obrigatorios)])
        else
          bind (upload_loop rt (ret (''variations/'' @ js_string product_id)) 0 (req_files req) [])
            (\<lambda>imageKeys.
          let variationInsert = JObj
                [(''product_id'', product_id), (''name'', name),
                 (''color'', js_or color JNull), (''size'', js_or size JNull),
                 (''price'', number rt (js_or price (JNum ''0''))),
                 (''stock'', number rt (js_or stock (JNum ''0''))),
                 (''images'', JArr (map JStr imageKeys))]
          in
          bind (db_call rt \<lparr>tbl = ''product_variations'', verb = Insert [variationInsert],
                            mods = [Returning, Single]\<rparr>) (\<lambda>(variation, error).
          if truthy error then respond 400 (JObj [(''error'', get_prop error ''message'')])
          else
            bind (variations_variationWithAccessibleImages rt variation) (\<lambda>variationWithUrls.
            respond_json (JObj [(''variation'', variationWithUrls)])))))
       catch_500"

subsection \<open>GET /product/:product_id\<close>

definition variations_get :: "'w runtime \<Rightarrow> request \<Rightarrow> ('w, unit) prog" where
  "variations_get rt req =
     try_catch
       (if param req = [] then respond 400 (JObj [(''error'', JStr msg_id_invalido)])
        else
          bind (db_call rt (variations_of_product (JStr (param req)))) (\<lambda>(variations, error).
          if truthy error then respond 500 (JObj [(''error'', get_prop error ''message'')])
          else
            bind (case js_or variations (JArr []) of
                    JArr vs \<Rightarrow> mapM (variations_variationWithAccessibleImages rt) vs
                  | _ \<Rightarrow> throw (type_error ''(variations || []).map is not a function''))
              (\<lambda>variationsWithUrls.
              respond_json (JObj [(''variations'', JArr variationsWithUrls)]))))
       catch_500"

subsection \<open>PUT /:id\<close>

definition variation_changes :: "'w runtime \<Rightarrow> request \<Rightarrow> (string \<times> jv) list" where
  "variation_changes rt req =
     (let name = body_field req ''name''; color = body_field req ''color'';
          size = body_field req ''size''; price = body_field req ''price'';
          stock = body_field req ''stock''; is_active = body_field req ''is_active''
      in (if name \<noteq> JUndefined then [(''name'', name)] else [])
       @ (if color \<noteq> JUndefined then [(''color'', js_or color JNull)] else [])
       @ (if size \<noteq> JUndefined then [(''size'', js_or size JNull)] else [])
       @ (if price \<noteq> JUndefined then [(''price'', number rt (js_or price (JNum ''0'')))] else [])
       @ (if stock \<noteq> JUndefined then [(''stock'', number rt (js_or stock (JNum ''0'')))] else [])
       @ (if is_active \<noteq> JUndefined then [(''is_active'', JBool (truthy is_active))] else []))"

definition variations_put :: "'w runtime \<Rightarrow> request \<Rightarrow> ('w, unit) prog" where
  "variations_put rt req =
     try_catch
       (let id = param req; changes = variation_changes rt req in
        bind (if req_files req \<noteq> [] then
                bind (db_call rt \<lparr>tbl = ''product_variations'', verb = Select ''product_id'',
                                  mods = [Eq ''id'' (JStr id), Single]\<rparr>)
                  (\<lambda>(existingVariation, ignored).
                let product_id = js_or (opt_prop existingVariation ''product_id'') (JStr ''unknown'')
                in
                bind (upload_loop rt (ret (''variations/'' @ js_string product_id)) 0
                        (req_files req) []) (\<lambda>imageKeys.
                if imageKeys \<noteq> [] then
                  bind (db_call rt \<lparr>tbl = ''product_variations'', verb = Select ''images'',
                                    mods = [Eq ''id'' (JStr id), Single]\<rparr>)
                    (\<lambda>(existingVariation, ignored).
                    bind (lift_attempt (spread_iter (existing_images existingVariation)))
                      (\<lambda>existingImages.
                      ret (set_prop changes ''images''
                             (JArr (existingImages @ map JStr imageKeys)))))
                else ret changes))
              else ret changes) (\<lambda>changes.
        bind (db_call rt \<lparr>tbl = ''product_variations'', verb = Update (JObj changes),
                          mods = [Eq ''id'' (JStr id), Returning, Single]\<rparr>)
          (\<lambda>(variation, error).
          if truthy error then respond 400 (JObj [(''error'', get_prop error ''message'')])
          else
            bind (variations_variationWithAccessibleImages rt variation) (\<lambda>variationWithUrls.
            respond_json (JObj [(''variation'', variationWithUrls)])))))
       catch_500"

subsection \<open>DELETE /:id\<close>

definition variations_delete :: "'w runtime \<Rightarrow> request \<Rightarrow> ('w, unit) prog" where
  "variations_delete rt req =
     try_catch
       (bind (db_call rt \<lparr>tbl = ''product_variations'', verb = Delete,
                          mods = [Eq ''id'' (JStr (param req))]\<rparr>) (\<lambda>(ignored, error).
        if truthy error then respond 400 (JObj [(''error'', get_prop error ''message'')])
        else respond_json (JObj [(''ok'', JBool True)])))
       catch_500"

section \<open>The site-settings router\<close>

definition msg_configuracao_nao_encontrada :: string where
  "msg_configuracao_nao_encontrada =
     ''Configura'' @ [CHR 0xE7, CHR 0xE3] @ ''o n'' @ [CHR 0xE3] @ ''o encontrada''"

definition msg_valor_obrigatorio :: string where
  "msg_valor_obrigatorio = ''Valor '' @ [CHR 0xE9] @ '' obrigat'' @ [CHR 0xF3] @ ''rio''"

definition msg_configuracao_criada :: string where
  "msg_configuracao_criada = ''Configura'' @ [CHR 0xE7, CHR 0xE3] @ ''o criada com sucesso''"

definition msg_configuracao_atualizada :: string where
  "msg_configuracao_atualizada = ''Configura'' @ [CHR 0xE7, CHR 0xE3] @ ''o atualizada com sucesso''"

definition msg_nenhuma_imagem :: string where
  "msg_nenhuma_imagem = ''Nenhuma imagem enviada''"

definition msg_upload_bloqueado :: string where
  "msg_upload_bloqueado =
     ''Upload bloqueado pelas pol'' @ [CHR 0xED] @ ''ticas de seguran'' @ [CHR 0xE7]
       @ ''a do Supabase Storage.''"

definition msg_hint_rls :: string where
  "msg_hint_rls =
     ''Configure as pol'' @ [CHR 0xED]
       @ ''ticas RLS do bucket product_images no painel do Supabase.''"

definition msg_erro_upload_imagem :: string where
  "msg_erro_upload_imagem = ''Erro ao fazer upload da imagem''"

definition msg_imagem_enviada :: string where
  "msg_imagem_enviada = ''Imagem enviada com sucesso''"

definition msg_nenhum_video :: string where
  "msg_nenhum_video = ''Nenhum v'' @ [CHR 0xED] @ ''deo enviado''"

definition msg_apenas_videos :: string where
  "msg_apenas_videos =
     ''Apenas v'' @ [CHR 0xED] @ ''deos s'' @ [CHR 0xE3]
       @ ''o permitidos (MP4, WebM, OGG, AVI, MOV, WMV)''"

definition msg_erro_upload_video :: string where
  "msg_erro_upload_video = ''Erro ao fazer upload do v'' @ [CHR 0xED] @ ''deo''"

definition msg_video_enviado :: string where
  "msg_video_enviado = ''V'' @ [CHR 0xED] @ ''deo enviado com sucesso''"

definition msg_erro_inicializar :: string where
  "msg_erro_inicializar =
     ''Erro ao inicializar configura'' @ [CHR 0xE7, CHR 0xF5] @ ''es''"

definition msg_configuracoes_inicializadas :: string where
  "msg_configuracoes_inicializadas =
     ''Configura'' @ [CHR 0xE7, CHR 0xF5] @ ''es inicializadas com sucesso''"

definition nao_existe :: string where
  "nao_existe = ''n'' @ [CHR 0xE3] @ ''o existe''"

subsection \<open>The router's middleware\<close>

text \<open>
  The first \<open>router.use\<close> selects one key of the table and calls \<open>next()\<close> whatever the answer
  is, also when the call or the test of its error throws.
\<close>

definition settings_table_check :: "'w runtime \<Rightarrow> ('w, unit) prog" where
  "settings_table_check rt =
     try_catch
       (bind (db_call rt \<lparr>tbl = ''site_settings'', verb = Select ''key'', mods = [Limit 1]\<rparr>)
          (\<lambda>(ignored, error). ret ()))
       (\<lambda>err. ret ())"

subsection \<open>GET /\<close>

text \<open>
  The \<open>forEach\<close> that turns the rows into \<open>settingsObj\<close>. A nullish row throws. Writing the key
  \<open>__proto__\<close> replaces the prototype of \<open>settingsObj\<close> and adds no property of its own.
\<close>

fun settings_object :: "jv list \<Rightarrow> (string \<times> jv) list \<Rightarrow> (string \<times> jv) list attempt" where
  "settings_object [] settingsObj = Returned settingsObj"
| "settings_object (setting # rest) settingsObj =
     (if nullish setting
        then Raised (type_error (''Cannot read properties of '' @ js_string setting))
      else
        (let k = js_string (get_prop setting ''key'');
             v = JObj [(''value'', get_prop setting ''value''), (''type'', get_prop setting ''type'')]
         in settings_object rest (if k = ''__proto__'' then settingsObj else set_prop settingsObj k v)))"

text \<open>\<open>if (!settingsObj[k]) settingsObj[k] = { value: v, type: 'text' }\<close>\<close>

definition ensure_setting :: "string \<Rightarrow> string \<Rightarrow> (string \<times> jv) list \<Rightarrow> (string \<times> jv) list" where
  "ensure_setting k v settingsObj =
     (if \<not> truthy (get_prop (JObj settingsObj) k)
      then set_prop settingsObj k (JObj [(''value'', JStr v), (''type'', JStr ''text'')])
      else settingsObj)"

text \<open>\<open>process.env.NODE_ENV === 'development' ? err.stack : undefined\<close>\<close>

definition stack_of :: "'w runtime \<Rightarrow> jv \<Rightarrow> jv" where
  "stack_of rt err = (if development rt then get_prop err ''stack'' else JUndefined)"

definition catch_500_stack :: "'w runtime \<Rightarrow> jv \<Rightarrow> ('w, 'a) prog" where
  "catch_500_stack rt err =
     respond 500 (JObj [(''error'', get_prop err ''message''), (''stack'', stack_of rt err)])"

definition settings_get :: "'w runtime \<Rightarrow> request \<Rightarrow> ('w, unit) prog" where
  "settings_get rt req =
     try_catch
       (bind (db_call rt \<lparr>tbl = ''site_settings'', verb = Select ''key, value, type'',
                          mods = [Order ''key'' True]\<rparr>) (\<lambda>(settings, error).
        if truthy error then
          bind (if get_prop error ''code'' = JStr ''42P01'' \<or> get_prop error ''code'' = JStr ''PGRST116''
                then ret True
                else lift_attempt (message_includes (get_prop error ''message'')
                                     [''does not exist'', ''relation'', nao_existe]))
            (\<lambda>missing.
            if missing then respond_json (JObj [(''settings'', JObj [])])
            else respond 500 (JObj [(''error'', get_prop error ''message''),
                                    (''code'', get_prop error ''code'')]))
        else
          bind (case js_or settings (JArr []) of
                  JArr rows \<Rightarrow> lift_attempt (settings_object rows [])
                | _ \<Rightarrow> throw (type_error ''(settings || []).forEach is not a function''))
            (\<lambda>settingsObj.
            respond_json (JObj [(''settings'', JObj
              (ensure_setting ''site_background_video_url'' []
                (ensure_setting ''site_background_value'' ''#f5f5f5''
                  (ensure_setting ''site_background_type'' ''color'' settingsObj))))]))))
       (\<lambda>err.
          bind (lift_attempt (message_includes (get_prop err ''message'')
                                [''does not exist'', ''relation'', nao_existe])) (\<lambda>inMessage.
          if inMessage \<or> get_prop err ''code'' = JStr ''42P01''
            then respond_json (JObj [(''settings'', JObj [])])
          else catch_500_stack rt err))"

subsection \<open>GET /:key\<close>

definition settings_get_key :: "'w runtime \<Rightarrow> request \<Rightarrow> ('w, unit) prog" where
  "settings_get_key rt req =
     try_catch
       (bind (db_call rt \<lparr>tbl = ''site_settings'', verb = Select ''key, value, type'',
                          mods = [Eq ''key'' (JStr (param req)), Single]\<rparr>) (\<lambda>(setting, error).
        if truthy error \<or> \<not> truthy setting
          then respond 404 (JObj [(''error'', JStr msg_configuracao_nao_encontrada)])
        else respond_json (JObj [(''setting'', setting)])))
       catch_500"

subsection \<open>PUT /:key\<close>

definition settings_put_key :: "'w runtime \<Rightarrow> request \<Rightarrow> ('w, unit) prog" where
  "settings_put_key rt req =
     try_catch
       (let key = param req; v = body_field req ''value'' in
        if v = JUndefined then respond 400 (JObj [(''error'', JStr msg_valor_obrigatorio)])
        else
          bind (iso_call rt) (\<lambda>updated_at.
          bind (read_prop (user req) ''id'') (\<lambda>updated_by.
          bind (db_call rt \<lparr>tbl = ''site_settings'',
                            verb = Update (JObj [(''value'', v), (''updated_at'', JStr updated_at),
                                                 (''updated_by'', updated_by)]),
                            mods = [Eq ''key'' (JStr key), Returning, Single]\<rparr>)
            (\<lambda>(setting, updateError).
            if truthy updateError then
              (if get_prop updateError ''code'' = JStr ''PGRST116'' then
                 bind (read_prop (user req) ''id'') (\<lambda>updated_by.
                 bind (db_call rt \<lparr>tbl = ''site_settings'',
                                   verb = Insert [JObj [(''key'', JStr key), (''value'', v),
                                                        (''type'', JStr ''text''),
                                                        (''updated_by'', updated_by)]],
                                   mods = [Returning, Single]\<rparr>) (\<lambda>(newSetting, createError).
                 if truthy createError
                   then respond 500 (JObj [(''error'', get_prop createError ''message'')])
                 else respond_json (JObj [(''setting'', newSetting),
                                          (''message'', JStr msg_configuracao_criada)])))
               else respond 500 (JObj [(''error'', get_prop updateError ''message'')]))
            else respond_json (JObj [(''setting'', setting),
                                     (''message'', JStr msg_configuracao_atualizada)])))))
       catch_500"

subsection \<open>POST /:key/upload\<close>

text \<open>\<open>const { data: { publicUrl } } = getPublicUrl(filePath)\<close>\<close>

definition public_url_of :: "'w runtime \<Rightarrow> string \<Rightarrow> ('w, jv) prog" where
  "public_url_of rt filePath =
     bind (public_url_call rt (JStr filePath)) (\<lambda>pub.
     bind (read_prop pub ''data'') (\<lambda>d. read_prop d ''publicUrl''))"

definition settings_post_upload :: "'w runtime \<Rightarrow> request \<Rightarrow> ('w, unit) prog" where
  "settings_post_upload rt req =
     try_catch
       (let key = param req in
        case single_file req of
          None \<Rightarrow> respond 400 (JObj [(''error'', JStr msg_nenhuma_imagem)])
        | Some f \<Rightarrow>
            bind (db_call rt \<lparr>tbl = ''site_settings'', verb = Select ''key, type'',
                              mods = [Eq ''key'' (JStr key), Single]\<rparr>) (\<lambda>(setting, ignored).
            if \<not> truthy setting
              then respond 404 (JObj [(''error'', JStr msg_configuracao_nao_encontrada)])
            else
              bind (now_call rt) (\<lambda>t.
              let filePath = key @ ''_'' @ t @ path_extname rt (originalname f) in
              bind (upload_call rt filePath f) (\<lambda>result.
              bind (read_prop result ''error'') (\<lambda>uploadError.
              if truthy uploadError then
                bind (if get_prop uploadError ''statusCode'' = JStr ''403'' then ret True
                      else lift_attempt (message_includes (get_prop uploadError ''message'')
                                           [''row-level security''])) (\<lambda>blocked.
                if blocked then
                  respond 403 (JObj [(''error'', JStr msg_upload_bloqueado),
                                     (''hint'', JStr msg_hint_rls),
                                     (''details'', get_prop uploadError ''message'')])
                else
                  respond 500 (JObj [(''error'', JStr msg_erro_upload_imagem),
                                     (''detail'', js_or (get_prop uploadError ''message'') uploadError),
                                     (''path'', JStr filePath)]))
              else
                bind (public_url_of rt filePath) (\<lambda>publicUrl.
                bind (iso_call rt) (\<lambda>updated_at.
                bind (read_prop (user req) ''id'') (\<lambda>updated_by.
                bind (db_call rt \<lparr>tbl = ''site_settings'',
                                  verb = Update (JObj [(''value'', publicUrl), (''type'', JStr ''image''),
                                                       (''updated_at'', JStr updated_at),
                                                       (''updated_by'', updated_by)]),
                                  mods = [Eq ''key'' (JStr key), Returning, Single]\<rparr>)
                  (\<lambda>(updatedSetting, updateError).
                  if truthy updateError
                    then respond 500 (JObj [(''error'', get_prop updateError ''message'')])
                  else respond_json (JObj [(''setting'', updatedSetting),
                                           (''image_url'', publicUrl),
                                           (''message'', JStr msg_imagem_enviada)]))))))))))
       (catch_500_stack rt)"

subsection \<open>POST /site_background_video/upload\<close>

text \<open>\<open>toLowerCase\<close> on code units below 256.\<close>

definition lower_char :: "char \<Rightarrow> char" where
  "lower_char c =
     (let n = of_char c :: nat in
      if (65 \<le> n \<and> n \<le> 90) \<or> (192 \<le> n \<and> n \<le> 222 \<and> n \<noteq> 215) then char_of (n + 32) else c)"

text \<open>\<open>/mp4|webm|ogg|avi|mov|wmv/.test(s)\<close>\<close>

definition video_type :: "string \<Rightarrow> bool" where
  "video_type s = list_ex (str_includes s) [''mp4'', ''webm'', ''ogg'', ''avi'', ''mov'', ''wmv'']"

definition settings_post_video :: "'w runtime \<Rightarrow> request \<Rightarrow> ('w, unit) prog" where
  "settings_post_video rt req =
     try_catch
       (case single_file req of
          None \<Rightarrow> respond 400 (JObj [(''error'', JStr msg_nenhum_video)])
        | Some f \<Rightarrow>
            (let extname = video_type (map lower_char (path_extname rt (originalname f)));
                 mimetype_ok = video_type (mimetype f)
             in
             if \<not> mimetype_ok \<or> \<not> extname
               then respond 400 (JObj [(''error'', JStr msg_apenas_videos)])
             else
               bind (now_call rt) (\<lambda>t.
               let filePath = ''site_background_video_'' @ t @ path_extname rt (originalname f) in
               bind (upload_call rt filePath f) (\<lambda>result.
               bind (read_prop result ''error'') (\<lambda>uploadError.
               if truthy uploadError then
                 respond 500 (JObj [(''error'', JStr msg_erro_upload_video),
                                    (''detail'', js_or (get_prop uploadError ''message'') uploadError),
                                    (''path'', JStr filePath)])
               else
                 bind (public_url_of rt filePath) (\<lambda>publicUrl.
                 bind (iso_call rt) (\<lambda>updated_at.
                 bind (read_prop (user req) ''id'') (\<lambda>updated_by.
                 bind (db_call rt \<lparr>tbl = ''site_settings'',
                                   verb = Update (JObj [(''value'', publicUrl), (''type'', JStr ''video''),
                                                        (''updated_at'', JStr updated_at),
                                                        (''updated_by'', updated_by)]),
                                   mods = [Eq ''key'' (JStr ''site_background_video_url''),
                                           Returning, Single]\<rparr>)
                   (\<lambda>(updatedSetting, updateError).
                   if truthy updateError then
                     (if get_prop updateError ''code'' = JStr ''PGRST116'' then
                        bind (read_prop (user req) ''id'') (\<lambda>updated_by.
                        bind (db_call rt \<lparr>tbl = ''site_settings'',
                                          verb = Insert [JObj [(''key'', JStr ''site_background_video_url''),
                                                               (''value'', publicUrl),
                                                               (''type'', JStr ''video''),
                                                               (''updated_by'', updated_by)]],
                                          mods = [Returning, Single]\<rparr>)
                          (\<lambda>(newSetting, createError).
                          if truthy createError
                            then respond 500 (JObj [(''error'', get_prop createError ''message'')])
                          else respond_json (JObj [(''setting'', newSetting),
                                                   (''video_url'', publicUrl),
                                                   (''message'', JStr msg_video_enviado)])))
                      else respond 500 (JObj [(''error'', get_prop updateError ''message'')]))
                   else respond_json (JObj [(''setting'', updatedSetting),
                                            (''video_url'', publicUrl),
                                            (''message'', JStr msg_video_enviado)]))))))))))
       (catch_500_stack rt)"

subsection \<open>GET /initialize\<close>

definition defaultSettings :: "(string \<times> string) list" where
  "defaultSettings =
     [(''announcement_text'', ''Frete gr'' @ [CHR 0xE1] @ ''tis em compras acima de R$ 199''),
      (''hero_banner_title'', ''Nova Cole'' @ [CHR 0xE7, CHR 0xE3] @ ''o''),
      (''hero_banner_subtitle'', ''At'' @ [CHR 0xE9] @ '' 70% OFF + 20% no primeiro pedido''),
      (''site_background_type'', ''color''),
      (''site_background_value'', ''#f5f5f5''),
      (''site_background_video_url'', [])]"

text \<open>\<open>existingSettings?.map(s => s.key) || []\<close>\<close>

definition existing_keys :: "jv \<Rightarrow> jv list attempt" where
  "existing_keys existingSettings =
     (if nullish existingSettings then Returned []
      else (case existingSettings of
              JArr rows \<Rightarrow>
                (if list_ex nullish rows
                 then Raised (type_error ''Cannot read properties of null (reading key)'')
                 else Returned (map (\<lambda>s. get_prop s ''key'') rows))
            | _ \<Rightarrow> Raised (type_error ''existingSettings?.map is not a function'')))"

definition settings_get_initialize :: "'w runtime \<Rightarrow> request \<Rightarrow> ('w, unit) prog" where
  "settings_get_initialize rt req =
     try_catch
       (bind (db_call rt \<lparr>tbl = ''site_settings'', verb = Select ''key'', mods = []\<rparr>)
          (\<lambda>(existingSettings, ignored).
        bind (lift_attempt (existing_keys existingSettings)) (\<lambda>existingKeys.
        let settingsToInsert = filter (\<lambda>(k, v). JStr k \<notin> set existingKeys) defaultSettings in
        bind (if settingsToInsert \<noteq> [] then
                bind (db_call rt \<lparr>tbl = ''site_settings'',
                                  verb = Insert (map (\<lambda>(k, v). JObj [(''key'', JStr k), (''value'', JStr v),
                                                                     (''type'', JStr ''text'')])
                                                   settingsToInsert),
                                  mods = []\<rparr>) (\<lambda>(ignored, insertError).
                if truthy insertError
                  then respond 500 (JObj [(''error'', JStr msg_erro_inicializar)])
                else ret ())
              else ret ()) (\<lambda>u.
        respond_json (JObj [(''message'', JStr msg_configuracoes_inicializadas)])))))
       catch_500"

section \<open>The routes\<close>

datatype route =
    ProductsPost | ProductsGetList | ProductsGetId | ProductsPut | ProductsDelete
  | VariationsPost | VariationsGet | VariationsPut | VariationsDelete
  | SettingsGet | SettingsGetKey | SettingsPutKey | SettingsPostUpload | SettingsPostVideo
  | SettingsGetInitialize

fun handler :: "route \<Rightarrow> 'w runtime \<Rightarrow> request \<Rightarrow> ('w, unit) prog" where
  "handler ProductsPost = products_post"
| "handler ProductsGetList = products_get_list"
| "handler ProductsGetId = products_get_id"
| "handler ProductsPut = products_put"
| "handler ProductsDelete = products_delete"
| "handler VariationsPost = variations_post"
| "handler VariationsGet = variations_get"
| "handler VariationsPut = variations_put"
| "handler VariationsDelete = variations_delete"
| "handler SettingsGet = settings_get"
| "handler SettingsGetKey = settings_get_key"
| "handler SettingsPutKey = settings_put_key"
| "handler SettingsPostUpload = settings_post_upload"
| "handler SettingsPostVideo = settings_post_video"
| "handler SettingsGetInitialize = settings_get_initialize"

section \<open>Runs of a program\<close>

definition outcome_of :: "('w, 'a) prog \<Rightarrow> 'w \<Rightarrow> 'a outcome" where
  "outcome_of m w = fst (m w)"

definition events_of :: "('w, 'a) prog \<Rightarrow> 'w \<Rightarrow> event list" where
  "events_of m w = snd (snd (m w))"

definition world_after :: "('w, 'a) prog \<Rightarrow> 'w \<Rightarrow> 'w" where
  "world_after m w = fst (snd (m w))"

fun is_db :: "event \<Rightarrow> bool" where
  "is_db (EDb q a) = True"
| "is_db ev = False"

fun is_upload :: "event \<Rightarrow> bool" where
  "is_upload (EUpload k f a) = True"
| "is_upload ev = False"

text \<open>The database operations and the storage uploads among the calls of a run.\<close>

definition db_ops :: "event list \<Rightarrow> nat" where
  "db_ops es = length (filter is_db es)"

definition uploads :: "event list \<Rightarrow> nat" where
  "uploads es = length (filter is_upload es)"

text \<open>Every run of \<open>m\<close> ends in an outcome and a list of calls that \<open>Q\<close> accepts.\<close>

definition post :: "('w, 'a) prog \<Rightarrow> ('a outcome \<Rightarrow> event list \<Rightarrow> bool) \<Rightarrow> bool" where
  "post m Q = (\<forall>w. case m w of (r, w', es) \<Rightarrow> Q r es)"

definition returns :: "'a outcome \<Rightarrow> bool" where
  "returns r = (case r of Value v \<Rightarrow> True | _ \<Rightarrow> False)"

section \<open>The calls that make a URL\<close>

text \<open>\<open>pub?.data?.publicUrl\<close> or \<open>pub?.publicURL\<close> is truthy.\<close>

definition has_url :: "jv \<Rightarrow> bool" where
  "has_url pub =
     (truthy (opt_prop (opt_prop pub ''data'') ''publicUrl'') \<or> truthy (opt_prop pub ''publicURL''))"

definition pub_url :: "jv \<Rightarrow> jv" where
  "pub_url pub =
     (if truthy (opt_prop (opt_prop pub ''data'') ''publicUrl'')
      then get_prop (get_prop pub ''data'') ''publicUrl'' else get_prop pub ''publicURL'')"

text \<open>
  The runs of \<open>makeAccessibleUrl\<close> on \<open>key\<close>: no call at all, the public-URL call alone, the
  public-URL call followed by the signed-URL call, and the two runs in which a call has thrown
  and the \<open>catch\<close> block asks for the public URL once more.
\<close>

fun mau_run :: "jv \<Rightarrow> jv outcome \<Rightarrow> event list \<Rightarrow> bool" where
  "mau_run key out [] =
     ((\<not> truthy key \<or> already_url key) \<and> out = Value (if truthy key then key else JNull))"
| "mau_run key out [EPublicUrl k (Returned pub)] =
     (truthy key \<and> \<not> already_url key \<and> k = key \<and> has_url pub \<and> out = Value (pub_url pub))"
| "mau_run key out [EPublicUrl k (Returned pub), ESignedUrl k' n (Returned (signed, signErr))] =
     (truthy key \<and> \<not> already_url key \<and> k = key \<and> k' = key \<and> n = 3600 \<and> \<not> has_url pub
      \<and> out = Value (if \<not> truthy signErr \<and> truthy (opt_prop signed ''signedURL'')
                       then get_prop signed ''signedURL'' else JNull))"
| "mau_run key out [EPublicUrl k (Returned pub), ESignedUrl k' n (Raised x), EPublicUrl k'' c] =
     (truthy key \<and> \<not> already_url key \<and> k = key \<and> k' = key \<and> k'' = key \<and> n = 3600
      \<and> \<not> has_url pub
      \<and> out = Value (case c of Returned pub2 \<Rightarrow> pub_or_null pub2 | Raised e2 \<Rightarrow> JNull))"
| "mau_run key out [EPublicUrl k (Raised e), EPublicUrl k' c] =
     (truthy key \<and> \<not> already_url key \<and> k = key \<and> k' = key
      \<and> out = Value (case c of Returned pub2 \<Rightarrow> pub_or_null pub2 | Raised e2 \<Rightarrow> JNull))"
| "mau_run key out es = False"

text \<open>The runs of the URL generation for a variation image: the public-URL call and nothing else.\<close>

fun variation_url_run :: "jv \<Rightarrow> jv outcome \<Rightarrow> event list \<Rightarrow> bool" where
  "variation_url_run key out [EPublicUrl k a] =
     (k = key \<and> out = Value (case a of
                                Returned pub \<Rightarrow> (if has_url pub then pub_url pub else JNull)
                              | Raised e \<Rightarrow> JNull))"
| "variation_url_run key out es = False"

section \<open>Bounds on the calls of a route\<close>

text \<open>The most database operations one run of each handler makes.\<close>

fun max_db_ops :: "route \<Rightarrow> nat" where
  "max_db_ops ProductsPost = 2"
| "max_db_ops ProductsGetList = 1"
| "max_db_ops ProductsGetId = 2"
| "max_db_ops ProductsPut = 2"
| "max_db_ops ProductsDelete = 1"
| "max_db_ops VariationsPost = 1"
| "max_db_ops VariationsGet = 1"
| "max_db_ops VariationsPut = 3"
| "max_db_ops VariationsDelete = 1"
| "max_db_ops SettingsGet = 1"
| "max_db_ops SettingsGetKey = 1"
| "max_db_ops SettingsPutKey = 2"
| "max_db_ops SettingsPostUpload = 2"
| "max_db_ops SettingsPostVideo = 2"
| "max_db_ops SettingsGetInitialize = 2"

text \<open>The files a request carries: \<open>req.files\<close> for the routes of \<open>upload.array\<close>, \<open>req.file\<close> for the routes of \<open>upload.single\<close>.\<close>

definition received_files :: "request \<Rightarrow> nat" where
  "received_files req =
     length (req_files req) + (case single_file req of None \<Rightarrow> 0 | Some f \<Rightarrow> 1)"

fun settings_route :: "route \<Rightarrow> bool" where
  "settings_route SettingsGet = True"
| "settings_route SettingsGetKey = True"
| "settings_route SettingsPutKey = True"
| "settings_route SettingsPostUpload = True"
| "settings_route SettingsPostVideo = True"
| "settings_route SettingsGetInitialize = True"
| "settings_route r = False"

fun products_route :: "route \<Rightarrow> bool" where
  "products_route ProductsPost = True"
| "products_route ProductsGetList = True"
| "products_route ProductsGetId = True"
| "products_route ProductsPut = True"
| "products_route ProductsDelete = True"
| "products_route r = False"

text \<open>
  A route as its router runs it: the \<open>router.use\<close> middleware of the router, then the handler.
  (\<open>adminRequired\<close> and the multipart parser are outside the repository; their work is done
  when the handler starts.)
\<close>

definition route_run :: "route \<Rightarrow> 'w runtime \<Rightarrow> request \<Rightarrow> ('w, unit) prog" where
  "route_run r rt req =
     (if settings_route r then bind (settings_table_check rt) (\<lambda>u. handler r rt req)
      else if products_route r then handler r rt (attach_user rt req)
      else handler r rt req)"

section \<open>A backend for examples\<close>

fun call_name :: "event \<Rightarrow> string" where
  "call_name (EDb q a) =
     (case verb q of Select cols \<Rightarrow> ''select'' | Insert rows \<Rightarrow> ''insert''
      | Update changes \<Rightarrow> ''update'' | Delete \<Rightarrow> ''delete'')"
| "call_name (EUpload k f a) = ''upload''"
| "call_name (EPublicUrl k a) = ''getPublicUrl''"
| "call_name (ESignedUrl k n a) = ''createSignedUrl''"
| "call_name (EThrown e) = ''throw''"

definition example_row :: jv where
  "example_row =
     JObj [(''id'', JNum ''7''), (''product_id'', JNum ''3''), (''name'', JStr ''Camisa''),
           (''images'', JArr [JStr ''products/7/1_0.jpg'']), (''is_active'', JBool True)]"

text \<open>
  A database in which every call succeeds: an insert or update answers the written row with
  id 7, a select answers \<open>example_row\<close> (in an array unless \<open>single()\<close> was asked).
\<close>

definition example_db :: "query \<Rightarrow> unit \<Rightarrow> (jv \<times> jv) attempt \<times> unit" where
  "example_db q w =
     (Returned
        (case verb q of
           Insert rows \<Rightarrow> (case rows of [] \<Rightarrow> JNull | r # rs \<Rightarrow> JObj ((''id'', JNum ''7'') # spread r))
         | Update changes \<Rightarrow> JObj ((''id'', JNum ''7'') # spread changes)
         | Select cols \<Rightarrow> (if Single \<in> set (mods q) then example_row else JArr [example_row])
         | Delete \<Rightarrow> JNull,
         JNull), w)"

text \<open>
  The backend of the examples around a database \<open>d\<close>: the storage takes every upload and
  has a public and a signed URL for every key, and the clock stands still.
\<close>

definition backend_with :: "(query \<Rightarrow> 'w \<Rightarrow> (jv \<times> jv) attempt \<times> 'w) \<Rightarrow> 'w runtime" where
  "backend_with d =
     \<lparr>db = d,
      upload = (\<lambda>key f w.
        (Returned (JObj [(''data'', JObj [(''path'', JStr key)]), (''error'', JNull)]), w)),
      getPublicUrl = (\<lambda>key w.
        (Returned (JObj [(''data'',
           JObj [(''publicUrl'', JStr (''https://cdn.example/'' @ js_string key))])]), w)),
      createSignedUrl = (\<lambda>key expiresIn w.
        (Returned (JObj [(''signedURL'', JStr (''https://cdn.example/signed/'' @ js_string key))],
                   JNull), w)),
      date_now = (\<lambda>w. (''1700000000000'', w)),
      to_iso_string = (\<lambda>w. (''2023-11-14T22:13:20.000Z'', w)),
      number = (\<lambda>v. JNum (js_string v)),
      jwt_verify = (\<lambda>token. Raised (JObj [(''message'', JStr ''jwt malformed'')])),
      path_extname = (\<lambda>s. ''.'' @ last (split_on (CHR ''.'') s)),
      development = False\<rparr>"

definition example_rt :: "unit runtime" where
  "example_rt = backend_with example_db"

definition example_file :: upfile where
  "example_file = \<lparr>originalname = ''a.png'', mimetype = ''image/png'', buffer = ''PNG''\<rparr>"

text \<open>A request of an admin with one file, for the row 7.\<close>

definition example_request :: request where
  "example_request =
     \<lparr>user = JObj [(''id'', JStr ''u1''), (''role'', JStr ''admin'')],
      authorization = None,
      param = ''7'',
      body = [(''name'', JStr ''Camisa''), (''price'', JStr ''10'')],
      query_params = [],
      files = Some [example_file],
      single_file = None\<rparr>"

text \<open>The same backend with a bucket that has no public URLs.\<close>

definition no_public_rt :: "unit runtime" where
  "no_public_rt =
     example_rt\<lparr>getPublicUrl := (\<lambda>key w.
       (Returned (JObj [(''data'', JObj [(''publicUrl'', JNull)])]), w))\<rparr>"


text \<open>A request of a visitor who searches the list.\<close>

definition visitor_request :: request where
  "visitor_request =
     \<lparr>user = JUndefined,
      authorization = Some ''Bearer not-a-token'',
      param = ''7'',
      body = [],
      query_params = [(''search'', JStr ''camisa''), (''brands'', JStr ''nike, ,adidas''),
                      (''priceRange'', JStr ''0-50''), (''sort'', JStr ''cheapest'')],
      files = None,
      single_file = None\<rparr>"

text \<open>The same backend with a database that answers every query with a time-out error.\<close>

definition timeout_rt :: "unit runtime" where
  "timeout_rt =
     example_rt\<lparr>db := (\<lambda>q w.
       (Returned (JNull, JObj [(''code'', JStr ''57014''),
          (''message'', JStr ''canceling statement due to statement timeout'')]), w))\<rparr>"

text \<open>The same backend with a database that has no table for the query.\<close>

definition missing_table_rt :: "unit runtime" where
  "missing_table_rt =
     example_rt\<lparr>db := (\<lambda>q w.
       (Returned (JNull, JObj [(''code'', JStr ''PGRST205''),
          (''message'', JStr ''relation public.site_settings does not exist'')]), w))\<rparr>"

text \<open>The same backend with a settings table of two rows.\<close>

definition settings_rows :: "jv list" where
  "settings_rows =
     [JObj [(''key'', JStr ''announcement_text''), (''value'', JStr ''Frete''), (''type'', JStr ''text'')],
      JObj [(''key'', JStr ''site_background_type''), (''value'', JStr ''image''),
            (''type'', JStr ''text'')]]"

definition settings_rt :: "unit runtime" where
  "settings_rt = example_rt\<lparr>db := (\<lambda>q w. (Returned (JArr settings_rows, JNull), w))\<rparr>"

text \<open>
  A database that holds the images of one row as its state. Its selects fail with a network
  error; an update with \<open>images\<close> stores them and answers the row.
\<close>

definition flaky_db :: "query \<Rightarrow> jv list \<Rightarrow> (jv \<times> jv) attempt \<times> jv list" where
  "flaky_db q stored =
     (case verb q of
        Select cols \<Rightarrow> (Returned (JNull, JObj [(''message'', JStr ''fetch failed'')]), stored)
      | Update changes \<Rightarrow>
          (let stored' = (case get_prop changes ''images'' of JArr xs \<Rightarrow> xs | _ \<Rightarrow> stored)
           in (Returned (JObj [(''id'', JNum ''7''), (''images'', JArr stored')], JNull), stored'))
      | _ \<Rightarrow> (Returned (JNull, JNull), stored))"

definition flaky_rt :: "jv list runtime" where
  "flaky_rt = backend_with flaky_db"



section \<open>The image references of a response\<close>

text \<open>The URLs the storage service has answered in a call.\<close>

fun offered_urls :: "event \<Rightarrow> jv list" where
  "offered_urls (EPublicUrl k (Returned pub)) =
     [opt_prop (opt_prop pub ''data'') ''publicUrl'', opt_prop pub ''publicURL'']"
| "offered_urls (ESignedUrl k n (Returned (signed, signErr))) = [opt_prop signed ''signedURL'']"
| "offered_urls ev = []"

definition offered :: "event list \<Rightarrow> jv list" where
  "offered es = concat (map offered_urls es)"

definition elems :: "jv \<Rightarrow> jv list" where
  "elems v = (case v of JArr xs \<Rightarrow> xs | _ \<Rightarrow> [])"

text \<open>The \<open>images\<close> of a product or variation, and its \<open>image\<close> unless that is null.\<close>

definition images_of :: "jv \<Rightarrow> jv list" where
  "images_of v = elems (get_prop v ''images'')"

definition image_ref :: "jv \<Rightarrow> jv list" where
  "image_ref v = (if nullish (get_prop v ''image'') then [] else [get_prop v ''image''])"

definition own_image_refs :: "jv \<Rightarrow> jv list" where
  "own_image_refs v = images_of v @ image_ref v"

text \<open>The stored images of a row, as the database answers it.\<close>

definition row_images :: "jv \<Rightarrow> jv list" where
  "row_images row = images_of (JObj (spread row))"

text \<open>
  The stored images that the database has answered in a call: those of the row, or of the
  rows, of its \<open>data\<close>.
\<close>

fun answered_images :: "event \<Rightarrow> jv list" where
  "answered_images (EDb q (Returned (d, e))) = row_images d @ concat (map row_images (elems d))"
| "answered_images ev = []"

definition stored :: "event list \<Rightarrow> jv list" where
  "stored es = concat (map answered_images es)"

text \<open>
  An image reference comes from the storage service, which has answered it in a call of
  \<open>es\<close>, or it is one of \<open>keys\<close> and starts with \<open>http://\<close> or \<open>https://\<close>.
\<close>

definition from_keys :: "jv list \<Rightarrow> event list \<Rightarrow> jv \<Rightarrow> bool" where
  "from_keys keys es u = (u \<in> set (offered es) \<or> (already_url u \<and> u \<in> set keys))"

text \<open>
  An image reference is accessible in a run when the storage service has answered it in a
  call of the run, or when it is a stored image that the database has answered in the run
  and that starts with \<open>http://\<close> or \<open>https://\<close>.
\<close>

definition accessible :: "event list \<Rightarrow> jv \<Rightarrow> bool" where
  "accessible es u = (u \<in> set (offered es) \<or> (already_url u \<and> u \<in> set (stored es)))"

text \<open>The image references of the variations inside a product.\<close>

definition embedded_refs :: "jv \<Rightarrow> jv list" where
  "embedded_refs v = concat (map own_image_refs (elems (get_prop v ''variations'')))"




text \<open>No product row that the database answered has a property \<open>variations\<close> of its own.\<close>

fun no_variations_column :: "event list \<Rightarrow> bool" where
  "no_variations_column [] = True"
| "no_variations_column (EDb q (Returned (d, e)) # es) =
     ((tbl q \<noteq> ''products''
       \<or> list_all (\<lambda>row. get_prop (JObj (spread row)) ''variations'' = JUndefined)
            (d # elems d))
      \<and> no_variations_column es)"
| "no_variations_column (ev # es) = no_variations_column es"


section \<open>The clauses of the product queries\<close>

text \<open>
  The filter of GET / that a clause belongs to, by its operator and its column. The filters
  \<open>types\<close> and \<open>categories\<close> both add \<open>in('type', ...)\<close>.
\<close>

datatype filter_kind =
    KActive | KSearch | KBrand | KBrands | KTypes | KSizes | KColors | KPrice | KDiscount
  | KSort | KOther

fun range_kind :: "string \<Rightarrow> filter_kind" where
  "range_kind c = (if c = ''price'' then KPrice else if c = ''discount'' then KDiscount else KOther)"

fun clause_kind :: "clause \<Rightarrow> filter_kind" where
  "clause_kind (Eq c v) =
     (if c = ''is_active'' then KActive else if c = ''brand'' then KBrand else KOther)"
| "clause_kind (Ilike c p) = (if c = ''name'' then KSearch else KOther)"
| "clause_kind (In c vs) =
     (if c = ''brand'' then KBrands else if c = ''type'' then KTypes
      else if c = ''color'' then KColors else KOther)"
| "clause_kind (Contains c vs) = (if c = ''sizes'' then KSizes else KOther)"
| "clause_kind (Gte c v) = range_kind c"
| "clause_kind (Lte c v) = range_kind c"
| "clause_kind (Gt c v) = range_kind c"
| "clause_kind (Order c asc) = KSort"
| "clause_kind c = KOther"




definition of_kind :: "filter_kind \<Rightarrow> clause list \<Rightarrow> clause list" where
  "of_kind k cs = filter (\<lambda>c. clause_kind c = k) cs"


text \<open>The query is one for active rows only.\<close>

fun active_only :: "event \<Rightarrow> bool" where
  "active_only (EDb q a) = (Eq ''is_active'' (JBool True) \<in> set (mods q))"
| "active_only ev = True"

text \<open>The query of the first call of a run, when that is a database call.\<close>

fun first_query :: "event list \<Rightarrow> query option" where
  "first_query (EDb q a # es) = Some q"
| "first_query es = None"

section \<open>The listing query that C7 describes\<close>

text \<open>
  The definitions of this section are not taken from the handler: they say, filter by filter,
  what the query of GET / is to hold, and \<open>list_query\<close> is compared with them.
\<close>












section \<open>The settings object\<close>

definition settings_query :: query where
  "settings_query =
     \<lparr>tbl = ''site_settings'', verb = Select ''key, value, type'', mods = [Order ''key'' True]\<rparr>"

definition background_defaults :: "(string \<times> string) list" where
  "background_defaults =
     [(''site_background_type'', ''color''), (''site_background_value'', ''#f5f5f5''),
      (''site_background_video_url'', [])]"

definition default_entry :: "string \<Rightarrow> jv" where
  "default_entry v = JObj [(''value'', JStr v), (''type'', JStr ''text'')]"

definition setting_entry :: "jv \<Rightarrow> jv" where
  "setting_entry s = JObj [(''value'', get_prop s ''value''), (''type'', get_prop s ''type'')]"

text \<open>What the rows of the table say for the key \<open>k\<close>: the entry of the last row with that key.\<close>

fun stored_setting :: "jv list \<Rightarrow> string \<Rightarrow> jv option" where
  "stored_setting [] k = None"
| "stored_setting (s # rest) k =
     (case stored_setting rest k of
        Some e \<Rightarrow> Some e
      | None \<Rightarrow> (if js_string (get_prop s ''key'') = k then Some (setting_entry s) else None))"

text \<open>The entry of the rows for \<open>k\<close>; without one, the default of a background key.\<close>

definition setting_or_default :: "jv list \<Rightarrow> string \<Rightarrow> jv" where
  "setting_or_default rows k =
     (case stored_setting rows k of
        Some e \<Rightarrow> e
      | None \<Rightarrow> (case map_of background_defaults k of
                   Some v \<Rightarrow> default_entry v
                 | None \<Rightarrow> JUndefined))"


text \<open>
  The select error that GET / takes for a missing table: one with the code \<open>42P01\<close> or
  \<open>PGRST116\<close>, or with a message that contains \<open>does not exist\<close>, \<open>relation\<close> or the
  Portuguese for it (\<open>nao_existe\<close>).
\<close>

definition missing_table_error :: "jv \<Rightarrow> bool" where
  "missing_table_error error =
     (get_prop error ''code'' = JStr ''42P01'' \<or> get_prop error ''code'' = JStr ''PGRST116''
      \<or> (case get_prop error ''message'' of
            JStr m \<Rightarrow>
              str_includes m ''does not exist'' \<or> str_includes m ''relation''
              \<or> str_includes m nao_existe
          | _ \<Rightarrow> False))"

text \<open>The message of the error is a string, or the error has none.\<close>

definition text_message :: "jv \<Rightarrow> bool" where
  "text_message error =
     (case get_prop error ''message'' of
        JStr m \<Rightarrow> True | JUndefined \<Rightarrow> True | JNull \<Rightarrow> True | _ \<Rightarrow> False)"

section \<open>The update of PUT\<close>

text \<open>The upload has answered, without an error.\<close>

fun upload_ok :: "event \<Rightarrow> bool" where
  "upload_ok (EUpload k f (Returned result)) =
     (\<not> nullish result \<and> \<not> truthy (get_prop result ''error''))"
| "upload_ok (EUpload k f (Raised x)) = False"
| "upload_ok ev = True"

text \<open>The keys of the uploads of a run, in the order of the uploads.\<close>

fun uploaded_keys :: "event list \<Rightarrow> string list" where
  "uploaded_keys [] = []"
| "uploaded_keys (EUpload k f a # es) = k # uploaded_keys es"
| "uploaded_keys (ev # es) = uploaded_keys es"

text \<open>
  The images of the row that the select of the stored images has answered without an error;
  a row without images has none.
\<close>

fun selected_images :: "event list \<Rightarrow> jv list option" where
  "selected_images [] = None"
| "selected_images (EDb q a # es) =
     (if verb q = Select ''images'' then
        (case a of
           Returned (d, e) \<Rightarrow>
             (if truthy e then None
              else (case spread_iter (existing_images d) of
                      Returned xs \<Rightarrow> Some xs
                    | Raised x \<Rightarrow> None))
         | Raised x \<Rightarrow> None)
      else selected_images es)"
| "selected_images (ev # es) = selected_images es"

text \<open>What the update of a run writes.\<close>

fun update_payload :: "event list \<Rightarrow> jv option" where
  "update_payload [] = None"
| "update_payload (EDb q a # es) =
     (case verb q of Update changes \<Rightarrow> Some changes | _ \<Rightarrow> update_payload es)"
| "update_payload (ev # es) = update_payload es"

fun put_changes :: "route \<Rightarrow> 'w runtime \<Rightarrow> request \<Rightarrow> (string \<times> jv) list" where
  "put_changes ProductsPut rt req = product_changes rt req"
| "put_changes VariationsPut rt req = variation_changes rt req"
| "put_changes r rt req = []"

text \<open>The body fields that PUT reads.\<close>

fun put_fields :: "route \<Rightarrow> string list" where
  "put_fields ProductsPut =
     [''name'', ''description'', ''price'', ''stock'', ''type'', ''color'', ''brand'', ''sizes'']"
| "put_fields VariationsPut = [''name'', ''color'', ''size'', ''price'', ''stock'', ''is_active'']"
| "put_fields r = []"

section \<open>Error responses\<close>

text \<open>The error messages that the handlers word themselves.\<close>

definition portuguese_literals :: "string list" where
  "portuguese_literals =
     [msg_id_invalido, msg_produto_nao_encontrado, msg_erro_upload_imagens,
      msg_campos_obrigatorios, msg_configuracao_nao_encontrada, msg_valor_obrigatorio,
      msg_nenhuma_imagem, msg_upload_bloqueado, msg_erro_upload_imagem, msg_nenhum_video,
      msg_apenas_videos, msg_erro_upload_video, msg_erro_inicializar]"

text \<open>
  The errors of a run: the \<open>error\<close> a backend call answered, the exception it threw, and
  the exceptions of the handler's own code.
\<close>

fun reported_errors :: "event \<Rightarrow> jv list" where
  "reported_errors (EDb q (Returned (d, e))) = [e]"
| "reported_errors (EDb q (Raised x)) = [x]"
| "reported_errors (EUpload k f (Returned result)) = [get_prop result ''error'']"
| "reported_errors (EUpload k f (Raised x)) = [x]"
| "reported_errors (EPublicUrl k (Returned pub)) = []"
| "reported_errors (EPublicUrl k (Raised x)) = [x]"
| "reported_errors (ESignedUrl k n (Returned (signed, e))) = [e]"
| "reported_errors (ESignedUrl k n (Raised x)) = [x]"
| "reported_errors (EThrown x) = [x]"

definition reported :: "event list \<Rightarrow> jv list" where
  "reported es = concat (map reported_errors es)"

text \<open>The body is an object whose first property is \<open>error\<close>.\<close>

definition has_error_prop :: "jv \<Rightarrow> bool" where
  "has_error_prop b = (case b of JObj ((k, m) # rest) \<Rightarrow> k = ''error'' | _ \<Rightarrow> False)"

text \<open>
  The message is one of the handlers' own, or it is the \<open>message\<close> of an error of the run.
\<close>

definition error_message_ok :: "event list \<Rightarrow> jv \<Rightarrow> bool" where
  "error_message_ok es m =
     (m \<in> JStr ` set portuguese_literals \<or> m \<in> (\<lambda>e. get_prop e ''message'') ` set (reported es))"

definition error_response_ok :: "event list \<Rightarrow> response \<Rightarrow> bool" where
  "error_response_ok es x =
     (has_error_prop (json x) \<and> error_message_ok es (get_prop (json x) ''error''))"

text \<open>What a run may end in: a response that is no error or a good error response, or an exception that is an error of the run.\<close>

definition ends_well :: "'a outcome \<Rightarrow> event list \<Rightarrow> bool" where
  "ends_well r es =
     (case r of
        Responded x \<Rightarrow> status x = 200 \<or> error_response_ok es x
      | Threw e \<Rightarrow> e \<in> set (reported es)
      | Value v \<Rightarrow> True)"

section \<open>Null-free images\<close>

text \<open>\<open>images.length ? images[0] : null\<close>\<close>

definition first_or_null :: "jv list \<Rightarrow> jv" where
  "first_or_null us = (case us of [] \<Rightarrow> JNull | u # rest \<Rightarrow> u)"

text \<open>The \<open>images\<close> of a product or variation are an array without a falsy entry.\<close>

definition null_free :: "jv \<Rightarrow> bool" where
  "null_free x = (case get_prop x ''images'' of JArr us \<Rightarrow> list_all truthy us | _ \<Rightarrow> False)"

text \<open>The \<open>image\<close> of a product or variation is the first of its \<open>images\<close>, or null.\<close>

definition image_is_first :: "jv \<Rightarrow> bool" where
  "image_is_first x = (get_prop x ''image'' = first_or_null (images_of x))"

section \<open>Rules for runs\<close>

lemma bind_ret [simp]: "bind (ret x) f = f x"
  by (rule ext) (simp add: bind_def ret_def split: prod.splits)

lemma bind_throw [simp]: "bind (throw e) f = throw e"
  by (rule ext) (simp add: bind_def throw_def)

lemma bind_respond [simp]: "bind (respond s b) f = respond s b"
  by (rule ext) (simp add: bind_def respond_def)

lemma try_ret [simp]: "try_catch (ret x) h = ret x"
  by (rule ext) (simp add: try_catch_def ret_def)

lemma try_respond [simp]: "try_catch (respond s b) h = respond s b"
  by (rule ext) (simp add: try_catch_def respond_def)

lemma postD: "post m Q \<Longrightarrow> Q (outcome_of m w) (events_of m w)"
proof -
  assume "post m Q"
  then have "case m w of (r, w', es) \<Rightarrow> Q r es" by (simp add: post_def)
  then show ?thesis by (cases "m w") (simp add: outcome_of_def events_of_def)
qed

lemma post_weaken: "post m P \<Longrightarrow> (\<And>r es. P r es \<Longrightarrow> Q r es) \<Longrightarrow> post m Q"
  by (auto simp: post_def split: prod.splits)

lemma post_ret [simp]: "post (ret x) Q = Q (Value x) []"
  by (simp add: post_def ret_def)

lemma post_throw [simp]: "post (throw e) Q = Q (Threw e) [EThrown e]"
  by (simp add: post_def throw_def)

lemma post_respond [simp]: "post (respond s b) Q = Q (Responded \<lparr>status = s, json = b\<rparr>) []"
  by (simp add: post_def respond_def)

lemma post_respond_json [simp]:
  "post (respond_json b) Q = Q (Responded \<lparr>status = 200, json = b\<rparr>) []"
  by (simp add: respond_json_def)

lemma post_lift [simp]:
  "post (lift_attempt a) Q =
     (case a of Returned x \<Rightarrow> Q (Value x) [] | Raised e \<Rightarrow> Q (Threw e) [EThrown e])"
  by (simp add: lift_attempt_def split: attempt.splits)

lemma post_read_prop [simp]:
  "post (read_prop v k) Q =
     (if nullish v
      then Q (Threw (type_error (''Cannot read properties of '' @ js_string v)))
             [EThrown (type_error (''Cannot read properties of '' @ js_string v))]
      else Q (Value (get_prop v k)) [])"
  by (simp add: read_prop_def)

lemma post_bind:
  "post m (\<lambda>r es. case r of
        Value a \<Rightarrow> post (f a) (\<lambda>r' es'. Q r' (es @ es'))
      | Threw e \<Rightarrow> Q (Threw e) es
      | Responded x \<Rightarrow> Q (Responded x) es) \<Longrightarrow> post (bind m f) Q"
  by (auto simp: post_def bind_def split: prod.splits outcome.splits)

lemma post_try:
  "post m (\<lambda>r es. case r of
        Threw e \<Rightarrow> post (h e) (\<lambda>r' es'. Q r' (es @ es'))
      | Value a \<Rightarrow> Q (Value a) es
      | Responded x \<Rightarrow> Q (Responded x) es) \<Longrightarrow> post (try_catch m h) Q"
  by (auto simp: post_def try_catch_def split: prod.splits outcome.splits)

lemma post_db: "(\<And>a. Q (attempt_outcome a) [EDb q a]) \<Longrightarrow> post (db_call rt q) Q"
  by (auto simp: post_def db_call_def split: prod.splits)

lemma post_upload:
  "(\<And>a. Q (attempt_outcome a) [EUpload k f a]) \<Longrightarrow> post (upload_call rt k f) Q"
  by (auto simp: post_def upload_call_def split: prod.splits)

lemma post_public:
  "(\<And>a. Q (attempt_outcome a) [EPublicUrl k a]) \<Longrightarrow> post (public_url_call rt k) Q"
  by (auto simp: post_def public_url_call_def split: prod.splits)

lemma post_signed:
  "(\<And>a. Q (attempt_outcome a) [ESignedUrl k n a]) \<Longrightarrow> post (signed_url_call rt k n) Q"
  by (auto simp: post_def signed_url_call_def split: prod.splits)

lemma post_now: "(\<And>t. Q (Value t) []) \<Longrightarrow> post (now_call rt) Q"
  by (auto simp: post_def now_call_def split: prod.splits)

lemma post_iso: "(\<And>t. Q (Value t) []) \<Longrightarrow> post (iso_call rt) Q"
  by (auto simp: post_def iso_call_def split: prod.splits)

lemmas post_intros =
  post_bind post_try post_db post_upload post_public post_signed post_now post_iso

lemma post_mapM:
  assumes f: "\<And>x. x \<in> set xs \<Longrightarrow> post (f x) (\<lambda>r es. returns r \<and> I es)"
    and nil: "I []"
    and app: "\<And>a b. I a \<Longrightarrow> I b \<Longrightarrow> I (a @ b)"
  shows "post (mapM f xs) (\<lambda>r es. returns r \<and> I es)"
  using f
proof (induction xs)
  case Nil
  then show ?case by (simp add: nil returns_def)
next
  case (Cons x xs)
  have hd: "post (f x) (\<lambda>r es. returns r \<and> I es)" using Cons.prems by simp
  have tl: "post (mapM f xs) (\<lambda>r es. returns r \<and> I es)" using Cons by simp
  show ?case
    unfolding mapM.simps
    apply (rule post_bind)
    apply (rule post_weaken [OF hd])
    apply (clarsimp simp: returns_def split: outcome.splits)
    apply (rule post_bind)
    apply (rule post_weaken [OF tl])
    apply (clarsimp simp: returns_def split: outcome.splits)
    apply (simp add: app)
    done
qed

lemma db_ops_simps [simp]:
  "db_ops [] = 0"
  "db_ops (es @ es') = db_ops es + db_ops es'"
  "db_ops (ev # es) = (if is_db ev then 1 else 0) + db_ops es"
  by (simp_all add: db_ops_def)

lemma uploads_simps [simp]:
  "uploads [] = 0"
  "uploads (es @ es') = uploads es + uploads es'"
  "uploads (ev # es) = (if is_upload ev then 1 else 0) + uploads es"
  by (simp_all add: uploads_def)

section \<open>The runs of the URL generation\<close>

lemma makeAccessibleUrl_runs: "post (makeAccessibleUrl rt key) (mau_run key)"
  unfolding makeAccessibleUrl_def
  by (auto simp: attempt_outcome_def has_url_def pub_url_def pub_or_null_def js_or_def opt_prop_def
      split: attempt.splits outcome.splits intro!: post_intros)

lemma variation_image_url_runs: "post (variation_image_url rt key) (variation_url_run key)"
  unfolding variation_image_url_def
  by (auto simp: attempt_outcome_def has_url_def pub_url_def opt_prop_def
      split: attempt.splits outcome.splits intro!: post_intros)

lemma makeAccessibleUrl_counts:
  "post (makeAccessibleUrl rt key) (\<lambda>r es. returns r \<and> db_ops es = 0 \<and> uploads es = 0)"
  unfolding makeAccessibleUrl_def
  by (auto simp: attempt_outcome_def returns_def
      split: attempt.splits outcome.splits intro!: post_intros)

lemma variation_image_url_counts:
  "post (variation_image_url rt key) (\<lambda>r es. returns r \<and> db_ops es = 0 \<and> uploads es = 0)"
  unfolding variation_image_url_def
  by (auto simp: attempt_outcome_def returns_def
      split: attempt.splits outcome.splits intro!: post_intros)

section \<open>Counting the calls\<close>

lemma products_variation_counts:
  "post (variationWithAccessibleImages rt v) (\<lambda>r es. returns r \<and> db_ops es = 0 \<and> uploads es = 0)"
proof -
  have m: "post (mapM (variation_image_url rt) xs) (\<lambda>r es. returns r \<and> db_ops es = 0 \<and> uploads es = 0)" for xs
    by (rule post_mapM) (simp_all add: variation_image_url_counts)
  show ?thesis
    unfolding variationWithAccessibleImages_def Let_def
    by (auto simp: returns_def simp del: mapM.simps split: jv.splits list.splits outcome.splits
        intro!: post_bind post_weaken [OF m])
qed

lemma variations_variation_counts:
  "post (variations_variationWithAccessibleImages rt v)
     (\<lambda>r es. returns r \<and> db_ops es = 0 \<and> uploads es = 0)"
proof -
  have m: "post (mapM (variation_image_url rt) xs) (\<lambda>r es. returns r \<and> db_ops es = 0 \<and> uploads es = 0)" for xs
    by (rule post_mapM) (simp_all add: variation_image_url_counts)
  show ?thesis
    unfolding variations_variationWithAccessibleImages_def Let_def
    by (auto simp: returns_def simp del: mapM.simps split: jv.splits list.splits outcome.splits
        intro!: post_bind post_weaken [OF m])
qed

lemma product_counts:
  "post (productWithAccessibleImages rt p incl)
     (\<lambda>r es. returns r \<and> db_ops es \<le> (if incl then 1 else 0) \<and> uploads es = 0)"
proof -
  have m: "post (mapM (makeAccessibleUrl rt) xs) (\<lambda>r es. returns r \<and> db_ops es = 0 \<and> uploads es = 0)" for xs
    by (rule post_mapM) (simp_all add: makeAccessibleUrl_counts)
  have v: "post (mapM (variationWithAccessibleImages rt) xs) (\<lambda>r es. returns r \<and> db_ops es = 0 \<and> uploads es = 0)" for xs
    by (rule post_mapM) (simp_all add: products_variation_counts)
  show ?thesis
    unfolding productWithAccessibleImages_def Let_def
    by (auto simp: returns_def attempt_outcome_def simp del: mapM.simps
        split: jv.splits list.splits outcome.splits attempt.splits
        intro!: post_intros post_weaken [OF m] post_weaken [OF v])
qed

lemma upload_loop_counts:
  assumes dir: "post dir (\<lambda>r es. db_ops es = 0 \<and> uploads es = 0)"
  shows "post (upload_loop rt dir i fs keys) (\<lambda>r es. db_ops es = 0 \<and> uploads es \<le> length fs)"
proof (induction fs arbitrary: i keys)
  case Nil
  then show ?case by simp
next
  case (Cons f fs)
  show ?case
    unfolding upload_loop.simps Let_def
    by (auto simp: attempt_outcome_def split: outcome.splits attempt.splits
        intro!: post_intros post_weaken [OF dir] post_weaken [OF Cons.IH])
qed

lemmas count_intros =
  post_intros
  post_weaken [OF product_counts]
  post_weaken [OF products_variation_counts]
  post_weaken [OF variations_variation_counts]
  post_weaken [OF upload_loop_counts]

lemma products_post_counts:
  "post (products_post rt req) (\<lambda>r es. db_ops es \<le> 2 \<and> uploads es \<le> length (req_files req))"
  unfolding products_post_def Let_def catch_500_def
  by (auto simp: attempt_outcome_def returns_def simp del: mapM.simps
      split: outcome.splits attempt.splits prod.splits intro!: count_intros)

lemma products_get_list_counts:
  "post (products_get_list rt req) (\<lambda>r es. db_ops es \<le> 1 \<and> uploads es = 0)"
proof -
  have m: "post (mapM (\<lambda>p. productWithAccessibleImages rt p False) xs)
             (\<lambda>r es. returns r \<and> db_ops es = 0 \<and> uploads es = 0)" for xs
    by (rule post_mapM) (auto intro: post_weaken [OF product_counts])
  show ?thesis
    unfolding products_get_list_def Let_def catch_500_def
    by (auto simp: attempt_outcome_def returns_def simp del: mapM.simps
        split: outcome.splits attempt.splits prod.splits jv.splits
        intro!: count_intros post_weaken [OF m])
qed

lemma products_get_id_counts:
  "post (products_get_id rt req) (\<lambda>r es. db_ops es \<le> 2 \<and> uploads es = 0)"
  unfolding products_get_id_def Let_def catch_500_def
  by (auto simp: attempt_outcome_def returns_def simp del: mapM.simps
      split: outcome.splits attempt.splits prod.splits intro!: count_intros)

lemma products_put_counts:
  "post (products_put rt req) (\<lambda>r es. db_ops es \<le> 2 \<and> uploads es \<le> length (req_files req))"
  unfolding products_put_def Let_def catch_500_def
  by (auto simp: attempt_outcome_def returns_def simp del: mapM.simps
      split: outcome.splits attempt.splits prod.splits intro!: count_intros)

lemma products_delete_counts:
  "post (products_delete rt req) (\<lambda>r es. db_ops es \<le> 1 \<and> uploads es = 0)"
  unfolding products_delete_def
  by (auto simp: attempt_outcome_def split: outcome.splits attempt.splits prod.splits
      intro!: count_intros)

lemma variations_post_counts:
  "post (variations_post rt req) (\<lambda>r es. db_ops es \<le> 1 \<and> uploads es \<le> length (req_files req))"
  unfolding variations_post_def Let_def catch_500_def
  by (auto simp: attempt_outcome_def returns_def simp del: mapM.simps
      split: outcome.splits attempt.splits prod.splits intro!: count_intros)

lemma variations_get_counts:
  "post (variations_get rt req) (\<lambda>r es. db_ops es \<le> 1 \<and> uploads es = 0)"
proof -
  have m: "post (mapM (variations_variationWithAccessibleImages rt) xs)
             (\<lambda>r es. returns r \<and> db_ops es = 0 \<and> uploads es = 0)" for xs
    by (rule post_mapM) (auto intro: post_weaken [OF variations_variation_counts])
  show ?thesis
    unfolding variations_get_def Let_def catch_500_def
    by (auto simp: attempt_outcome_def returns_def simp del: mapM.simps
        split: outcome.splits attempt.splits prod.splits jv.splits
        intro!: count_intros post_weaken [OF m])
qed

lemma variations_put_counts:
  "post (variations_put rt req) (\<lambda>r es. db_ops es \<le> 3 \<and> uploads es \<le> length (req_files req))"
  unfolding variations_put_def Let_def catch_500_def
  by (auto simp: attempt_outcome_def returns_def simp del: mapM.simps
      split: outcome.splits attempt.splits prod.splits intro!: count_intros)

lemma variations_delete_counts:
  "post (variations_delete rt req) (\<lambda>r es. db_ops es \<le> 1 \<and> uploads es = 0)"
  unfolding variations_delete_def catch_500_def
  by (auto simp: attempt_outcome_def split: outcome.splits attempt.splits prod.splits
      intro!: count_intros)

lemma settings_table_check_counts:
  "post (settings_table_check rt) (\<lambda>r es. returns r \<and> db_ops es \<le> 1 \<and> uploads es = 0)"
  unfolding settings_table_check_def
  by (auto simp: attempt_outcome_def returns_def split: outcome.splits attempt.splits prod.splits
      intro!: count_intros)

lemma settings_get_counts:
  "post (settings_get rt req) (\<lambda>r es. db_ops es \<le> 1 \<and> uploads es = 0)"
  unfolding settings_get_def catch_500_stack_def
  by (auto simp: attempt_outcome_def split: outcome.splits attempt.splits prod.splits jv.splits
      intro!: count_intros)

lemma settings_get_key_counts:
  "post (settings_get_key rt req) (\<lambda>r es. db_ops es \<le> 1 \<and> uploads es = 0)"
  unfolding settings_get_key_def catch_500_def
  by (auto simp: attempt_outcome_def split: outcome.splits attempt.splits prod.splits
      intro!: count_intros)

lemma settings_put_key_counts:
  "post (settings_put_key rt req) (\<lambda>r es. db_ops es \<le> 2 \<and> uploads es = 0)"
  unfolding settings_put_key_def Let_def catch_500_def
  by (auto simp: attempt_outcome_def split: outcome.splits attempt.splits prod.splits
      intro!: count_intros)

lemma public_url_of_counts:
  "post (public_url_of rt p) (\<lambda>r es. db_ops es = 0 \<and> uploads es = 0)"
  unfolding public_url_of_def
  by (auto simp: attempt_outcome_def split: outcome.splits attempt.splits intro!: count_intros)

lemma settings_post_upload_counts:
  "post (settings_post_upload rt req)
     (\<lambda>r es. db_ops es \<le> 2 \<and> uploads es \<le> (case single_file req of None \<Rightarrow> 0 | Some f \<Rightarrow> 1))"
  unfolding settings_post_upload_def Let_def catch_500_stack_def
  by (auto simp: attempt_outcome_def
      split: outcome.splits attempt.splits prod.splits option.splits
      intro!: count_intros post_weaken [OF public_url_of_counts])

lemma settings_post_video_counts:
  "post (settings_post_video rt req)
     (\<lambda>r es. db_ops es \<le> 2 \<and> uploads es \<le> (case single_file req of None \<Rightarrow> 0 | Some f \<Rightarrow> 1))"
  unfolding settings_post_video_def Let_def catch_500_stack_def
  by (auto simp: attempt_outcome_def
      split: outcome.splits attempt.splits prod.splits option.splits
      intro!: count_intros post_weaken [OF public_url_of_counts])

lemma settings_get_initialize_counts:
  "post (settings_get_initialize rt req) (\<lambda>r es. db_ops es \<le> 2 \<and> uploads es = 0)"
  unfolding settings_get_initialize_def Let_def catch_500_def
  by (auto simp: attempt_outcome_def split: outcome.splits attempt.splits prod.splits
      intro!: count_intros)

lemma handler_counts:
  "post (handler r rt req) (\<lambda>out es. db_ops es \<le> max_db_ops r \<and> uploads es \<le> received_files req)"
proof (cases r)
  case ProductsPost
  then show ?thesis
    by (auto simp: received_files_def intro: post_weaken [OF products_post_counts])
next
  case ProductsGetList
  then show ?thesis by (auto intro: post_weaken [OF products_get_list_counts])
next
  case ProductsGetId
  then show ?thesis by (auto intro: post_weaken [OF products_get_id_counts])
next
  case ProductsPut
  then show ?thesis
    by (auto simp: received_files_def intro: post_weaken [OF products_put_counts])
next
  case ProductsDelete
  then show ?thesis by (auto intro: post_weaken [OF products_delete_counts])
next
  case VariationsPost
  then show ?thesis
    by (auto simp: received_files_def intro: post_weaken [OF variations_post_counts])
next
  case VariationsGet
  then show ?thesis by (auto intro: post_weaken [OF variations_get_counts])
next
  case VariationsPut
  then show ?thesis
    by (auto simp: received_files_def intro: post_weaken [OF variations_put_counts])
next
  case VariationsDelete
  then show ?thesis by (auto intro: post_weaken [OF variations_delete_counts])
next
  case SettingsGet
  then show ?thesis by (auto intro: post_weaken [OF settings_get_counts])
next
  case SettingsGetKey
  then show ?thesis by (auto intro: post_weaken [OF settings_get_key_counts])
next
  case SettingsPutKey
  then show ?thesis by (auto intro: post_weaken [OF settings_put_key_counts])
next
  case SettingsPostUpload
  then show ?thesis
    by (auto simp: received_files_def split: option.splits
        intro: post_weaken [OF settings_post_upload_counts])
next
  case SettingsPostVideo
  then show ?thesis
    by (auto simp: received_files_def split: option.splits
        intro: post_weaken [OF settings_post_video_counts])
next
  case SettingsGetInitialize
  then show ?thesis by (auto intro: post_weaken [OF settings_get_initialize_counts])
qed

lemma attach_user_files:
  "received_files (attach_user rt req) = received_files req"
  by (simp add: attach_user_def received_files_def req_files_def Let_def
      split: option.splits attempt.splits)

lemma route_run_counts:
  "post (route_run r rt req)
     (\<lambda>out es. db_ops es \<le> max_db_ops r + (if settings_route r then 1 else 0)
                \<and> uploads es \<le> received_files req)"
proof -
  have h: "post (handler r rt q)
             (\<lambda>out es. db_ops es \<le> max_db_ops r \<and> uploads es \<le> received_files q)" for q
    by (rule handler_counts)
  show ?thesis
    unfolding route_run_def
    by (auto simp: returns_def attach_user_files split: outcome.splits
        intro!: post_bind post_weaken [OF settings_table_check_counts] post_weaken [OF h])
qed

section \<open>Where the image references of a result come from\<close>

lemma offered_simps [simp]:
  "offered [] = []"
  "offered (es @ es') = offered es @ offered es'"
  "offered (ev # es) = offered_urls ev @ offered es"
  by (simp_all add: offered_def)

lemma stored_simps [simp]:
  "stored [] = []"
  "stored (es @ es') = stored es @ stored es'"
  "stored (ev # es) = answered_images ev @ stored es"
  by (simp_all add: stored_def)


lemma from_keys_Cons [simp]:
  "from_keys ks (ev # es) u = (u \<in> set (offered_urls ev) \<or> from_keys ks es u)"
  by (auto simp: from_keys_def)

lemma from_keys_append [simp]:
  "from_keys ks (es @ es') u = (from_keys ks es u \<or> from_keys ks es' u)"
  by (auto simp: from_keys_def)

lemma from_keys_more: "from_keys ks es u \<Longrightarrow> set ks \<subseteq> set ks' \<Longrightarrow> from_keys ks' es u"
  by (auto simp: from_keys_def)

lemma accessible_mono: "accessible es u \<Longrightarrow> accessible (a @ es @ b) u"
  by (auto simp: accessible_def)

lemma from_keys_accessible:
  "from_keys ks es u \<Longrightarrow> set ks \<subseteq> set (answered_images ev) \<Longrightarrow> accessible (ev # es) u"
  by (auto simp: from_keys_def accessible_def)

lemma map_of_replace_other:
  "k' \<noteq> k \<Longrightarrow>
   map_of (map (\<lambda>(k', v'). if k' = k then (k', v) else (k', v')) kvs) k' = map_of kvs k'"
  by (induction kvs) auto

lemma map_of_replace_same:
  "k \<in> fst ` set kvs \<Longrightarrow>
   map_of (map (\<lambda>(k', v'). if k' = k then (k', v) else (k', v')) kvs) k = Some v"
  by (induction kvs) auto

lemma map_of_set_prop [simp]:
  "map_of (set_prop kvs k v) k' = (if k' = k then Some v else map_of kvs k')"
proof (cases "k \<in> fst ` set kvs")
  case False
  then have "map_of kvs k = None" by (simp add: map_of_eq_None_iff)
  with False show ?thesis
    by (cases "map_of kvs k'") (auto simp: set_prop_def map_add_def)
next
  case True
  then show ?thesis
    by (simp add: set_prop_def map_of_replace_other map_of_replace_same)
qed

lemma makeAccessibleUrl_accessible:
  "post (makeAccessibleUrl rt key)
     (\<lambda>r es. \<exists>u. r = Value u \<and> (truthy u \<longrightarrow> from_keys [key] es u))"
  unfolding makeAccessibleUrl_def
  by (auto simp: attempt_outcome_def from_keys_def pub_or_null_def js_or_def opt_prop_def
      split: attempt.splits outcome.splits if_splits intro!: post_intros)

lemma variation_image_url_accessible:
  "post (variation_image_url rt key)
     (\<lambda>r es. \<exists>u. r = Value u \<and> (truthy u \<longrightarrow> from_keys [] es u))"
  unfolding variation_image_url_def
  by (auto simp: attempt_outcome_def from_keys_def opt_prop_def
      split: attempt.splits outcome.splits if_splits intro!: post_intros)

lemma post_mapM_each:
  assumes f: "\<And>x. x \<in> set xs \<Longrightarrow> post (f x) (\<lambda>r es. \<exists>v. r = Value v \<and> R v es)"
    and mono: "\<And>v a es b. R v es \<Longrightarrow> R v (a @ es @ b)"
  shows "post (mapM f xs) (\<lambda>r es. \<exists>vs. r = Value vs \<and> (\<forall>v \<in> set vs. R v es))"
  using f
proof (induction xs)
  case Nil
  then show ?case by simp
next
  case (Cons x xs)
  have hd: "post (f x) (\<lambda>r es. \<exists>v. r = Value v \<and> R v es)" using Cons.prems by simp
  have tl: "post (mapM f xs) (\<lambda>r es. \<exists>vs. r = Value vs \<and> (\<forall>v \<in> set vs. R v es))"
    using Cons by simp
  have l: "R v es \<Longrightarrow> R v (es @ es')" for v es es'
    using mono [of v es "[]" es'] by simp
  have r: "R v es \<Longrightarrow> R v (es' @ es)" for v es es'
    using mono [of v es es' "[]"] by simp
  show ?case
    unfolding mapM.simps
    apply (rule post_bind)
    apply (rule post_weaken [OF hd])
    apply clarsimp
    apply (rule post_bind)
    apply (rule post_weaken [OF tl])
    apply (auto simp: l r)
    done
qed



lemma image_ref_simps [simp]:
  "image_ref (JObj (set_prop clone ''image'' x)) = (if nullish x then [] else [x])"
  "image_ref (JObj (set_prop kvs ''variations'' v)) = image_ref (JObj kvs)"
  "image_ref JUndefined = []"
  by (simp_all add: image_ref_def nullish_def)

lemma own_image_refs_clone [simp]:
  "own_image_refs (JObj (set_prop (set_prop clone ''images'' (JArr images)) ''image'' x)) =
     images @ (if nullish x then [] else [x])"
  by (simp add: own_image_refs_def images_of_def elems_def)

lemma own_image_refs_variations [simp]:
  "own_image_refs (JObj (set_prop kvs ''variations'' v)) = own_image_refs (JObj kvs)"
  by (simp add: own_image_refs_def images_of_def)



lemma embedded_refs_images [simp]:
  "embedded_refs (JObj (set_prop (set_prop clone ''images'' x) ''image'' y)) = embedded_refs (JObj clone)"
  by (simp add: embedded_refs_def)

lemma embedded_refs_variations [simp]:
  "embedded_refs (JObj (set_prop kvs ''variations'' (JArr vs))) = concat (map own_image_refs vs)"
  by (simp add: embedded_refs_def elems_def)



lemma own_image_refs_undefined [simp]:
  "own_image_refs JUndefined = []" "embedded_refs JUndefined = []"
  by (simp_all add: own_image_refs_def embedded_refs_def images_of_def elems_def)






section \<open>The clauses of the list query\<close>

lemma abind_Returned:
  "abind a f = Returned y \<longleftrightarrow> (\<exists>x. a = Returned x \<and> f x = Returned y)"
  by (cases a) (auto simp: abind_def)













lemma of_kind_simps [simp]:
  "of_kind k [] = []"
  "of_kind k (cs @ ds) = of_kind k cs @ of_kind k ds"
  "of_kind k (c # cs) = (if clause_kind c = k then c # of_kind k cs else of_kind k cs)"
  by (simp_all add: of_kind_def)






section \<open>The list query is the one that is expected\<close>















section \<open>The queries of the two public product endpoints\<close>

lemma attach_user_param [simp]: "param (attach_user rt req) = param req"
  by (simp add: attach_user_def Let_def split: option.splits attempt.splits)

lemma attach_user_query [simp]: "query_params (attach_user rt req) = query_params req"
  by (simp add: attach_user_def Let_def split: option.splits attempt.splits)

lemma makeAccessibleUrl_active:
  "post (makeAccessibleUrl rt key) (\<lambda>r es. returns r \<and> list_all active_only es)"
  unfolding makeAccessibleUrl_def
  by (auto simp: attempt_outcome_def returns_def
      split: attempt.splits outcome.splits intro!: post_intros)

lemma variation_image_url_active:
  "post (variation_image_url rt key) (\<lambda>r es. returns r \<and> list_all active_only es)"
  unfolding variation_image_url_def
  by (auto simp: attempt_outcome_def returns_def
      split: attempt.splits outcome.splits intro!: post_intros)

lemma products_variation_active:
  "post (variationWithAccessibleImages rt v) (\<lambda>r es. returns r \<and> list_all active_only es)"
proof -
  have m: "post (mapM (variation_image_url rt) xs) (\<lambda>r es. returns r \<and> list_all active_only es)"
    for xs
    by (rule post_mapM) (simp_all add: variation_image_url_active)
  show ?thesis
    unfolding variationWithAccessibleImages_def Let_def
    by (auto simp: returns_def simp del: mapM.simps split: jv.splits list.splits outcome.splits
        intro!: post_bind post_weaken [OF m])
qed

lemma product_active:
  "post (productWithAccessibleImages rt p incl) (\<lambda>r es. returns r \<and> list_all active_only es)"
proof -
  have m: "post (mapM (makeAccessibleUrl rt) xs) (\<lambda>r es. returns r \<and> list_all active_only es)"
    for xs
    by (rule post_mapM) (simp_all add: makeAccessibleUrl_active)
  have v: "post (mapM (variationWithAccessibleImages rt) xs)
             (\<lambda>r es. returns r \<and> list_all active_only es)" for xs
    by (rule post_mapM) (simp_all add: products_variation_active)
  show ?thesis
    unfolding productWithAccessibleImages_def Let_def
    by (auto simp: returns_def attempt_outcome_def variations_of_product_def
        simp del: mapM.simps
        split: jv.splits list.splits outcome.splits attempt.splits
        intro!: post_intros post_weaken [OF m] post_weaken [OF v])
qed

lemma list_query_active:
  "list_query req = Returned q \<Longrightarrow> \<not> isAdmin req \<Longrightarrow> Eq ''is_active'' (JBool True) \<in> set (mods q)"
  by (auto simp: list_query_def abind_Returned active_clauses_def)

lemma products_get_list_queries:
  "post (products_get_list rt req)
     (\<lambda>r es. (\<not> isAdmin req \<longrightarrow> list_all active_only es)
        \<and> first_query es = (case list_query req of Returned q \<Rightarrow> Some q | Raised e \<Rightarrow> None))"
proof -
  have m: "post (mapM (\<lambda>p. productWithAccessibleImages rt p False) ps)
             (\<lambda>r es. returns r \<and> list_all active_only es)" for ps
    by (rule post_mapM) (simp_all add: product_active)
  show ?thesis
    unfolding products_get_list_def catch_500_def
    by (auto simp: attempt_outcome_def returns_def list_query_active simp del: mapM.simps
        split: outcome.splits attempt.splits prod.splits jv.splits
        intro!: post_intros post_weaken [OF m])
qed

lemma products_get_id_queries:
  "post (products_get_id rt req)
     (\<lambda>r es. (\<not> isAdmin req \<longrightarrow> list_all active_only es)
        \<and> first_query es = (if param req = [] then None else Some (product_by_id req)))"
  unfolding products_get_id_def catch_500_def
  by (auto simp: attempt_outcome_def returns_def product_by_id_def active_clauses_def
      simp del: mapM.simps
      split: outcome.splits attempt.splits prod.splits
      intro!: post_intros post_weaken [OF product_active])

section \<open>The settings object of GET /\<close>

lemma settings_object_lookup:
  assumes "\<not> list_ex nullish rows"
  shows "\<exists>obj. settings_object rows acc = Returned obj
     \<and> (\<forall>k. k \<noteq> ''__proto__'' \<longrightarrow>
          map_of obj k = (case stored_setting rows k of Some e \<Rightarrow> Some e | None \<Rightarrow> map_of acc k))
     \<and> map_of obj ''__proto__'' = map_of acc ''__proto__''"
  using assms
proof (induction rows arbitrary: acc)
  case Nil
  then show ?case by simp
next
  case (Cons s rest)
  let ?k = "js_string (get_prop s ''key'')"
  let ?acc = "if ?k = ''__proto__'' then acc else set_prop acc ?k (setting_entry s)"
  from Cons.prems have ns: "\<not> nullish s" and nr: "\<not> list_ex nullish rest" by simp_all
  from Cons.IH [OF nr, of ?acc] obtain obj where
    o: "settings_object rest ?acc = Returned obj"
    and l: "\<forall>k. k \<noteq> ''__proto__'' \<longrightarrow>
          map_of obj k = (case stored_setting rest k of Some e \<Rightarrow> Some e | None \<Rightarrow> map_of ?acc k)"
    and p: "map_of obj ''__proto__'' = map_of ?acc ''__proto__''"
    by blast
  have 1: "settings_object (s # rest) acc = Returned obj"
    using ns o by (auto simp: Let_def setting_entry_def split: if_splits)
  have 2: "\<forall>k. k \<noteq> ''__proto__'' \<longrightarrow>
          map_of obj k = (case stored_setting (s # rest) k of Some e \<Rightarrow> Some e | None \<Rightarrow> map_of acc k)"
    using l by (auto split: option.splits)
  have 3: "map_of obj ''__proto__'' = map_of acc ''__proto__''"
    using p by (simp split: if_splits)
  from 1 2 3 show ?case by blast
qed

lemma stored_setting_truthy: "stored_setting rows k = Some e \<Longrightarrow> truthy e"
  by (induction rows) (auto simp: setting_entry_def split: option.splits if_splits)

lemma get_prop_ensure_setting:
  "get_prop (JObj (ensure_setting k v obj)) k' =
     (if k' = k \<and> \<not> truthy (get_prop (JObj obj) k) then default_entry v else get_prop (JObj obj) k')"
  by (simp add: ensure_setting_def default_entry_def)

lemma with_defaults_lookup:
  assumes l: "\<forall>k. k \<noteq> ''__proto__'' \<longrightarrow> map_of obj k = stored_setting rows k"
    and k: "k \<noteq> ''__proto__''"
  shows "get_prop (JObj (ensure_setting ''site_background_video_url'' []
            (ensure_setting ''site_background_value'' ''#f5f5f5''
              (ensure_setting ''site_background_type'' ''color'' obj)))) k
         = setting_or_default rows k"
proof -
  have g: "get_prop (JObj obj) k' = (case stored_setting rows k' of Some e \<Rightarrow> e | None \<Rightarrow> JUndefined)"
    if "k' \<noteq> ''__proto__''" for k'
    using l that by simp
  have t: "truthy (get_prop (JObj obj) k') \<longleftrightarrow> stored_setting rows k' \<noteq> None"
    if "k' \<noteq> ''__proto__''" for k'
    using g [OF that] stored_setting_truthy [of rows k'] by (auto split: option.splits)
  have e: "get_prop (JObj (ensure_setting ''site_background_video_url'' []
            (ensure_setting ''site_background_value'' ''#f5f5f5''
              (ensure_setting ''site_background_type'' ''color'' obj)))) k
         = (if k = ''site_background_video_url''
               \<and> stored_setting rows ''site_background_video_url'' = None then default_entry []
            else if k = ''site_background_value''
               \<and> stored_setting rows ''site_background_value'' = None then default_entry ''#f5f5f5''
            else if k = ''site_background_type''
               \<and> stored_setting rows ''site_background_type'' = None then default_entry ''color''
            else get_prop (JObj obj) k)"
    by (simp add: get_prop_ensure_setting t del: get_prop.simps)
  show ?thesis
    unfolding e
    by (auto simp: g [OF k] setting_or_default_def background_defaults_def
        simp del: get_prop.simps split: option.splits)
qed

lemmas run_defs =
  outcome_of_def events_of_def world_after_def bind_def try_catch_def ret_def throw_def
  respond_def respond_json_def lift_attempt_def attempt_outcome_def db_call_def

lemma settings_get_rows:
  assumes db: "db rt settings_query w = (Returned (settings, error), w')"
    and ok: "\<not> truthy error"
    and rows: "js_or settings (JArr []) = JArr rows"
    and nn: "\<not> list_ex nullish rows"
  shows "\<exists>obj. outcome_of (settings_get rt req) w =
            Responded \<lparr>status = 200, json = JObj [(''settings'', JObj obj)]\<rparr>
     \<and> (\<forall>k. k \<noteq> ''__proto__'' \<longrightarrow> get_prop (JObj obj) k = setting_or_default rows k)"
proof -
  from settings_object_lookup [OF nn, of "[]"] obtain obj where
    o: "settings_object rows [] = Returned obj"
    and l: "\<forall>k. k \<noteq> ''__proto__'' \<longrightarrow> map_of obj k = stored_setting rows k"
    by (auto simp: option.case_eq_if)
  let ?final = "ensure_setting ''site_background_video_url'' []
            (ensure_setting ''site_background_value'' ''#f5f5f5''
              (ensure_setting ''site_background_type'' ''color'' obj))"
  have "outcome_of (settings_get rt req) w =
          Responded \<lparr>status = 200, json = JObj [(''settings'', JObj ?final)]\<rparr>"
    using db ok rows o unfolding settings_query_def
    by (simp add: settings_get_def run_defs)
  moreover have "\<forall>k. k \<noteq> ''__proto__'' \<longrightarrow> get_prop (JObj ?final) k = setting_or_default rows k"
    using with_defaults_lookup [OF l] by blast
  ultimately show ?thesis by blast
qed

lemma settings_get_table_missing:
  assumes db: "db rt settings_query w = (Returned (settings, error), w')"
    and err: "truthy error"
    and missing: "missing_table_error error"
  shows "outcome_of (settings_get rt req) w =
           Responded \<lparr>status = 200, json = JObj [(''settings'', JObj [])]\<rparr>"
  using db err missing unfolding settings_query_def
  by (auto simp: settings_get_def run_defs missing_table_error_def message_includes_def
      simp del: get_prop.simps split: jv.splits)

lemma settings_get_other_error:
  assumes db: "db rt settings_query w = (Returned (settings, error), w')"
    and err: "truthy error"
    and msg: "text_message error"
    and other: "\<not> missing_table_error error"
  shows "outcome_of (settings_get rt req) w =
           Responded \<lparr>status = 500,
             json = JObj [(''error'', get_prop error ''message''),
                          (''code'', get_prop error ''code'')]\<rparr>"
  using db err msg other unfolding settings_query_def
  by (auto simp: settings_get_def run_defs missing_table_error_def text_message_def
      message_includes_def simp del: get_prop.simps split: jv.splits)

section \<open>The error responses of the handlers\<close>

lemma reported_simps [simp]:
  "reported [] = []"
  "reported (es @ es') = reported es @ reported es'"
  "reported (ev # es) = reported_errors ev @ reported es"
  by (simp_all add: reported_def)

lemma error_message_ok_literal [simp]:
  "m \<in> set portuguese_literals \<Longrightarrow> error_message_ok es (JStr m)"
  by (simp add: error_message_ok_def)

lemma error_message_ok_reported:
  "e \<in> set (reported es) \<Longrightarrow> error_message_ok es (get_prop e ''message'')"
  by (auto simp: error_message_ok_def)

lemma literals [simp]:
  "msg_id_invalido \<in> set portuguese_literals"
  "msg_produto_nao_encontrado \<in> set portuguese_literals"
  "msg_erro_upload_imagens \<in> set portuguese_literals"
  "msg_campos_obrigatorios \<in> set portuguese_literals"
  "msg_configuracao_nao_encontrada \<in> set portuguese_literals"
  "msg_valor_obrigatorio \<in> set portuguese_literals"
  "msg_nenhuma_imagem \<in> set portuguese_literals"
  "msg_upload_bloqueado \<in> set portuguese_literals"
  "msg_erro_upload_imagem \<in> set portuguese_literals"
  "msg_nenhum_video \<in> set portuguese_literals"
  "msg_apenas_videos \<in> set portuguese_literals"
  "msg_erro_upload_video \<in> set portuguese_literals"
  "msg_erro_inicializar \<in> set portuguese_literals"
  by (simp_all add: portuguese_literals_def)

lemma ends_well_simps [simp]:
  "ends_well (Value v) es = True"
  "ends_well (Threw e) es = (e \<in> set (reported es))"
  "ends_well (Responded x) es = (status x = 200 \<or> error_response_ok es x)"
  by (simp_all add: ends_well_def)

lemma get_prop_head: "get_prop (JObj ((k, v) # rest)) k = v"
  by simp

lemma error_response_literal [simp]:
  "m \<in> set portuguese_literals \<Longrightarrow>
   error_response_ok es \<lparr>status = s, json = JObj ((''error'', JStr m) # rest)\<rparr>"
  by (simp add: error_response_ok_def has_error_prop_def)

lemma error_response_reported [simp]:
  "e \<in> set (reported es) \<Longrightarrow>
   error_response_ok es \<lparr>status = s, json = JObj ((''error'', get_prop e ''message'') # rest)\<rparr>"
  by (simp add: error_response_ok_def has_error_prop_def error_message_ok_reported
      get_prop_head del: get_prop.simps)

lemma error_response_ok_append [simp]:
  "error_response_ok (a @ b) x = (error_response_ok a x \<or> error_response_ok b x)"
  by (auto simp: error_response_ok_def error_message_ok_def)

lemma error_response_ok_Cons [simp]:
  "error_response_ok es x \<Longrightarrow> error_response_ok (ev # es) x"
  by (auto simp: error_response_ok_def error_message_ok_def)

lemma ends_well_mono: "ends_well r es \<Longrightarrow> ends_well r (a @ es @ b)"
  by (auto simp: ends_well_def error_response_ok_def error_message_ok_def split: outcome.splits)

lemma upload_loop_ends_well:
  assumes dir: "post dir ends_well"
  shows "post (upload_loop rt dir i fs keys) ends_well"
proof (induction fs arbitrary: i keys)
  case Nil
  then show ?case by simp
next
  case (Cons f fs)
  have ih: "post (upload_loop rt dir i fs keys) (\<lambda>r es. ends_well r (a @ es))" for i keys a
    using ends_well_mono [where b = "[]"] by (auto intro: post_weaken [OF Cons.IH])
  have d: "post dir (\<lambda>r es. ends_well r es)" by (rule dir)
  show ?case
    unfolding upload_loop.simps Let_def
    apply (rule post_bind)
    apply (rule post_weaken [OF d])
    apply (auto simp: attempt_outcome_def simp del: get_prop.simps
        split: outcome.splits attempt.splits
        intro!: post_intros)
    apply (rule post_weaken [OF Cons.IH])
    apply (auto simp: ends_well_def error_response_ok_def error_message_ok_def
        split: outcome.splits)
    done
qed

lemmas ends_intros =
  post_intros
  post_weaken [OF product_counts]
  post_weaken [OF products_variation_counts]
  post_weaken [OF variations_variation_counts]
  post_weaken [OF upload_loop_ends_well]

lemma products_post_ends_well: "post (products_post rt req) ends_well"
  unfolding products_post_def Let_def catch_500_def
  by (auto simp: attempt_outcome_def returns_def simp del: mapM.simps get_prop.simps
      split: outcome.splits attempt.splits prod.splits intro!: ends_intros)

lemma products_get_list_ends_well: "post (products_get_list rt req) ends_well"
proof -
  have m: "post (mapM (\<lambda>p. productWithAccessibleImages rt p False) xs)
             (\<lambda>r es. returns r \<and> db_ops es = 0)" for xs
    by (rule post_mapM) (auto intro: post_weaken [OF product_counts])
  show ?thesis
    unfolding products_get_list_def catch_500_def
    by (auto simp: attempt_outcome_def returns_def simp del: mapM.simps get_prop.simps
        split: outcome.splits attempt.splits prod.splits jv.splits
        intro!: ends_intros post_weaken [OF m])
qed

lemma products_get_id_ends_well: "post (products_get_id rt req) ends_well"
  unfolding products_get_id_def catch_500_def
  by (auto simp: attempt_outcome_def returns_def simp del: mapM.simps get_prop.simps
      split: outcome.splits attempt.splits prod.splits intro!: ends_intros)

lemma products_put_ends_well: "post (products_put rt req) ends_well"
  unfolding products_put_def Let_def catch_500_def
  by (auto simp: attempt_outcome_def returns_def simp del: mapM.simps get_prop.simps
      split: outcome.splits attempt.splits prod.splits intro!: ends_intros)

lemma products_delete_ends_well: "post (products_delete rt req) ends_well"
  unfolding products_delete_def
  by (auto simp: attempt_outcome_def simp del: get_prop.simps
      split: outcome.splits attempt.splits prod.splits intro!: ends_intros)

lemma variations_post_ends_well: "post (variations_post rt req) ends_well"
  unfolding variations_post_def Let_def catch_500_def
  by (auto simp: attempt_outcome_def returns_def simp del: mapM.simps get_prop.simps
      split: outcome.splits attempt.splits prod.splits intro!: ends_intros)

lemma variations_get_ends_well: "post (variations_get rt req) ends_well"
proof -
  have m: "post (mapM (variations_variationWithAccessibleImages rt) xs)
             (\<lambda>r es. returns r \<and> db_ops es = 0)" for xs
    by (rule post_mapM) (auto intro: post_weaken [OF variations_variation_counts])
  show ?thesis
    unfolding variations_get_def catch_500_def
    by (auto simp: attempt_outcome_def returns_def simp del: mapM.simps get_prop.simps
        split: outcome.splits attempt.splits prod.splits jv.splits
        intro!: ends_intros post_weaken [OF m])
qed

lemma variations_put_ends_well: "post (variations_put rt req) ends_well"
  unfolding variations_put_def Let_def catch_500_def
  by (auto simp: attempt_outcome_def returns_def simp del: mapM.simps get_prop.simps
      split: outcome.splits attempt.splits prod.splits intro!: ends_intros)

lemma variations_delete_ends_well: "post (variations_delete rt req) ends_well"
  unfolding variations_delete_def catch_500_def
  by (auto simp: attempt_outcome_def simp del: get_prop.simps
      split: outcome.splits attempt.splits prod.splits intro!: ends_intros)

lemma settings_get_ends_well: "post (settings_get rt req) ends_well"
  unfolding settings_get_def catch_500_stack_def
  by (auto simp: attempt_outcome_def simp del: get_prop.simps
      split: outcome.splits attempt.splits prod.splits jv.splits intro!: ends_intros)

lemma settings_get_key_ends_well: "post (settings_get_key rt req) ends_well"
  unfolding settings_get_key_def catch_500_def
  by (auto simp: attempt_outcome_def simp del: get_prop.simps
      split: outcome.splits attempt.splits prod.splits intro!: ends_intros)

lemma settings_put_key_ends_well: "post (settings_put_key rt req) ends_well"
  unfolding settings_put_key_def Let_def catch_500_def
  by (auto simp: attempt_outcome_def simp del: get_prop.simps
      split: outcome.splits attempt.splits prod.splits intro!: ends_intros)

lemma public_url_of_ends_well: "post (public_url_of rt p) ends_well"
  unfolding public_url_of_def
  by (auto simp: attempt_outcome_def simp del: get_prop.simps
      split: outcome.splits attempt.splits intro!: ends_intros)

lemma settings_post_upload_ends_well: "post (settings_post_upload rt req) ends_well"
  unfolding settings_post_upload_def Let_def catch_500_stack_def
  by (auto simp: attempt_outcome_def simp del: get_prop.simps
      split: outcome.splits attempt.splits prod.splits option.splits
      intro!: ends_intros post_weaken [OF public_url_of_ends_well])

lemma settings_post_video_ends_well: "post (settings_post_video rt req) ends_well"
  unfolding settings_post_video_def Let_def catch_500_stack_def
  by (auto simp: attempt_outcome_def simp del: get_prop.simps
      split: outcome.splits attempt.splits prod.splits option.splits
      intro!: ends_intros post_weaken [OF public_url_of_ends_well])

lemma settings_get_initialize_ends_well: "post (settings_get_initialize rt req) ends_well"
  unfolding settings_get_initialize_def Let_def catch_500_def
  by (auto simp: attempt_outcome_def simp del: get_prop.simps
      split: outcome.splits attempt.splits prod.splits intro!: ends_intros)

lemma handler_ends_well: "post (handler r rt req) ends_well"
  by (cases r)
    (simp_all add: products_post_ends_well products_get_list_ends_well products_get_id_ends_well
      products_put_ends_well products_delete_ends_well variations_post_ends_well
      variations_get_ends_well variations_put_ends_well variations_delete_ends_well
      settings_get_ends_well settings_get_key_ends_well settings_put_key_ends_well
      settings_post_upload_ends_well settings_post_video_ends_well
      settings_get_initialize_ends_well)

section \<open>The update of PUT\<close>

lemma uploaded_keys_append [simp]:
  "uploaded_keys (es @ es') = uploaded_keys es @ uploaded_keys es'"
  by (induction es rule: uploaded_keys.induct) auto

lemma no_uploads_keys: "uploads es = 0 \<Longrightarrow> uploaded_keys es = []"
  by (induction es rule: uploaded_keys.induct) (auto split: if_splits)

lemma no_uploads_ok: "uploads es = 0 \<Longrightarrow> list_all upload_ok es"
  by (induction es rule: uploaded_keys.induct) (auto split: if_splits)

lemma selected_images_skip: "db_ops es = 0 \<Longrightarrow> selected_images (es @ es') = selected_images es'"
  by (induction es rule: selected_images.induct) (auto split: if_splits)

lemma update_payload_skip: "db_ops es = 0 \<Longrightarrow> update_payload (es @ es') = update_payload es'"
  by (induction es rule: update_payload.induct) (auto split: if_splits)

lemma product_changes_keys:
  "map fst (product_changes rt req) =
     filter (\<lambda>k. body_field req k \<noteq> JUndefined) (put_fields ProductsPut)"
  by (simp add: product_changes_def Let_def)

lemma variation_changes_keys:
  "map fst (variation_changes rt req) =
     filter (\<lambda>k. body_field req k \<noteq> JUndefined) (put_fields VariationsPut)"
  by (simp add: variation_changes_def Let_def)

lemma changes_without_images:
  "''images'' \<notin> fst ` set (product_changes rt req)"
  "''images'' \<notin> fst ` set (variation_changes rt req)"
proof -
  have "''images'' \<notin> set (map fst (product_changes rt req))"
    unfolding product_changes_keys by simp
  then show "''images'' \<notin> fst ` set (product_changes rt req)" by simp
  have "''images'' \<notin> set (map fst (variation_changes rt req))"
    unfolding variation_changes_keys by simp
  then show "''images'' \<notin> fst ` set (variation_changes rt req)" by simp
qed

lemma upload_loop_keys:
  "post (upload_loop rt (ret d) i fs keys)
     (\<lambda>r es. db_ops es = 0
        \<and> (list_all upload_ok es \<longrightarrow>
             r = Value (keys @ uploaded_keys es) \<and> length (uploaded_keys es) = length fs))"
proof (induction fs arbitrary: i keys)
  case Nil
  then show ?case by simp
next
  case (Cons f fs)
  show ?case
    unfolding upload_loop.simps Let_def
    by (auto simp: attempt_outcome_def simp del: get_prop.simps
        split: outcome.splits attempt.splits
        intro!: post_intros post_weaken [OF Cons.IH])
qed

lemma set_prop_new: "k \<notin> fst ` set kvs \<Longrightarrow> set_prop kvs k v = kvs @ [(k, v)]"
  by (simp add: set_prop_def)

lemma product_tail:
  "post (productWithAccessibleImages rt p False)
     (\<lambda>r es. returns r \<and> db_ops es = 0 \<and> uploads es = 0)"
  by (rule post_weaken [OF product_counts]) simp

lemma products_put_update:
  "post (products_put rt req)
     (\<lambda>r es. req_files req \<noteq> [] \<and> list_all upload_ok es \<longrightarrow>
        (case selected_images es of
           None \<Rightarrow> True
         | Some existing \<Rightarrow>
             update_payload es =
               Some (JObj (product_changes rt req
                           @ [(''images'', JArr (existing @ map JStr (uploaded_keys es)))]))
             \<and> length (uploaded_keys es) = length (req_files req)))"
  unfolding products_put_def Let_def catch_500_def
  by (auto simp: attempt_outcome_def returns_def selected_images_skip update_payload_skip
      no_uploads_keys no_uploads_ok set_prop_new changes_without_images
      simp del: mapM.simps get_prop.simps
      split: outcome.splits attempt.splits prod.splits
      intro!: post_intros post_weaken [OF upload_loop_keys] post_weaken [OF product_tail])

lemma variations_put_update:
  "post (variations_put rt req)
     (\<lambda>r es. req_files req \<noteq> [] \<and> list_all upload_ok es \<longrightarrow>
        (case selected_images es of
           None \<Rightarrow> True
         | Some existing \<Rightarrow>
             update_payload es =
               Some (JObj (variation_changes rt req
                           @ [(''images'', JArr (existing @ map JStr (uploaded_keys es)))]))
             \<and> length (uploaded_keys es) = length (req_files req)))"
  unfolding variations_put_def Let_def catch_500_def
  by (auto simp: attempt_outcome_def returns_def selected_images_skip update_payload_skip
      no_uploads_keys no_uploads_ok set_prop_new changes_without_images
      simp del: mapM.simps get_prop.simps
      split: outcome.splits attempt.splits prod.splits
      intro!: post_intros post_weaken [OF upload_loop_keys]
        post_weaken [OF variations_variation_counts])

text \<open>
  When PUT /:id of a product or of a variation has files and every upload answers without an
  error, and the select of the stored images has answered, without an error, a row with the
  images \<open>existing\<close>, the handler sends one update, which writes the body's fields and, as
  \<open>images\<close>, the existing images followed by the keys of the uploads in their order, one for
  each file. A field that is absent from the body is not written.
\<close>

lemma put_update_appends:
  assumes "r = ProductsPut \<or> r = VariationsPut"
    and "req_files req \<noteq> []"
    and "list_all upload_ok (events_of (handler r rt req) w)"
    and "selected_images (events_of (handler r rt req) w) = Some existing"
  shows "update_payload (events_of (handler r rt req) w) =
           Some (JObj (put_changes r rt req
             @ [(''images'',
                 JArr (existing @ map JStr (uploaded_keys (events_of (handler r rt req) w))))]))
    \<and> length (uploaded_keys (events_of (handler r rt req) w)) = length (req_files req)
    \<and> map fst (put_changes r rt req) =
        filter (\<lambda>k. body_field req k \<noteq> JUndefined) (put_fields r)"
proof -
  from assms(1) show ?thesis
  proof
    assume r: "r = ProductsPut"
    show ?thesis
      using postD [OF products_put_update [where rt = rt and req = req], where w = w]
        assms(2-4)
      unfolding r by (simp add: product_changes_keys del: get_prop.simps)
  next
    assume r: "r = VariationsPut"
    show ?thesis
      using postD [OF variations_put_update [where rt = rt and req = req], where w = w]
        assms(2-4)
      unfolding r by (simp add: variation_changes_keys del: get_prop.simps)
  qed
qed

section \<open>The images of a response hold no null\<close>

lemma image_list_null_free:
  assumes f: "\<And>key. post (f key) (\<lambda>r es. \<exists>u. r = Value u)"
  shows "post (bind (mapM f keys) (\<lambda>urls. ret (filter truthy urls)))
           (\<lambda>r es. \<exists>images. r = Value images \<and> list_all truthy images)"
proof -
  have m: "post (mapM f keys) (\<lambda>r es. \<exists>vs. r = Value vs \<and> (\<forall>v \<in> set vs. True))"
    by (rule post_mapM_each [where R = "\<lambda>v es. True"]) (auto intro: f)
  show ?thesis
    by (rule post_bind, rule post_weaken [OF m]) (auto simp: list_all_iff)
qed

lemma makeAccessibleUrl_returns: "post (makeAccessibleUrl rt key) (\<lambda>r es. \<exists>u. r = Value u)"
  by (rule post_weaken [OF makeAccessibleUrl_accessible]) auto

lemma variation_image_url_returns: "post (variation_image_url rt key) (\<lambda>r es. \<exists>u. r = Value u)"
  by (rule post_weaken [OF variation_image_url_accessible]) auto

lemma get_prop_set_prop:
  "get_prop (JObj (set_prop kvs k v)) k' = (if k' = k then v else get_prop (JObj kvs) k')"
  by simp

lemma null_free_clone [simp]:
  "null_free (JObj (set_prop (set_prop clone ''images'' (JArr images)) ''image'' x)) =
     list_all truthy images"
  by (simp add: null_free_def)

lemma image_is_first_clone [simp]:
  "image_is_first (JObj (set_prop (set_prop clone ''images'' (JArr images)) ''image'' x)) =
     (x = first_or_null images)"
  by (simp add: image_is_first_def images_of_def elems_def)

lemma null_free_variations [simp]:
  "null_free (JObj (set_prop kvs ''variations'' v)) = null_free (JObj kvs)"
  by (simp add: null_free_def)

lemma image_is_first_variations [simp]:
  "image_is_first (JObj (set_prop kvs ''variations'' v)) = image_is_first (JObj kvs)"
  by (simp add: image_is_first_def images_of_def)

lemma products_variation_null_free:
  "post (variationWithAccessibleImages rt v)
     (\<lambda>r es. \<exists>x. r = Value x \<and> null_free x \<and> image_is_first x)"
  unfolding variationWithAccessibleImages_def Let_def
  apply (rule post_bind)
  apply (rule post_weaken [where P = "\<lambda>r es. \<exists>images. r = Value images \<and> list_all truthy images"])
   apply (auto simp del: mapM.simps split: jv.splits list.splits
      intro!: image_list_null_free variation_image_url_returns)[1]
  apply (auto simp: first_or_null_def split: list.splits)
  done

text \<open>
  The copy in the variations router filters the nulls out as well, and leaves \<open>image\<close> as the
  row has it.
\<close>

lemma variations_variation_null_free:
  "post (variations_variationWithAccessibleImages rt v)
     (\<lambda>r es. \<exists>x. r = Value x \<and> null_free x
        \<and> get_prop x ''image'' = get_prop (JObj (spread v)) ''image'')"
  unfolding variations_variationWithAccessibleImages_def Let_def
  apply (rule post_bind)
  apply (rule post_weaken [where P = "\<lambda>r es. \<exists>images. r = Value images \<and> list_all truthy images"])
   apply (auto simp del: mapM.simps split: jv.splits list.splits
      intro!: image_list_null_free variation_image_url_returns)[1]
  apply (auto simp: null_free_def)
  done

lemma product_null_free:
  "post (productWithAccessibleImages rt p incl)
     (\<lambda>r es. \<exists>x. r = Value x \<and> null_free x \<and> image_is_first x
        \<and> (get_prop (JObj (spread p)) ''variations'' = JUndefined \<longrightarrow>
             list_all (\<lambda>v. null_free v \<and> image_is_first v) (elems (get_prop x ''variations''))))"
proof -
  have v: "post (mapM (variationWithAccessibleImages rt) vs)
             (\<lambda>r es. \<exists>xs. r = Value xs
                \<and> (\<forall>x \<in> set xs. null_free x \<and> image_is_first x))" for vs
    by (rule post_mapM_each [where R = "\<lambda>x es. null_free x \<and> image_is_first x"])
      (auto intro: products_variation_null_free)
  show ?thesis
    unfolding productWithAccessibleImages_def Let_def
    apply (rule post_bind)
    apply (rule post_weaken [where P = "\<lambda>r es. \<exists>images. r = Value images \<and> list_all truthy images"])
     apply (auto simp del: mapM.simps split: jv.splits list.splits
        intro!: image_list_null_free makeAccessibleUrl_returns)[1]
    apply (auto simp: attempt_outcome_def elems_def first_or_null_def list_all_iff
        get_prop_set_prop
        simp del: mapM.simps get_prop.simps
        split: list.splits if_splits outcome.splits attempt.splits jv.splits
        intro!: post_intros post_weaken [OF v])
    done
qed

lemma products_get_list_null_free:
  "post (products_get_list rt req)
     (\<lambda>r es. case r of
        Responded x \<Rightarrow>
          list_all (\<lambda>p. null_free p \<and> image_is_first p) (elems (get_prop (json x) ''products''))
      | _ \<Rightarrow> True)"
proof -
  have m: "post (mapM (\<lambda>p. productWithAccessibleImages rt p False) ps)
             (\<lambda>r es. \<exists>xs. r = Value xs
                \<and> (\<forall>x \<in> set xs. null_free x \<and> image_is_first x))" for ps
    by (rule post_mapM_each [where R = "\<lambda>x es. null_free x \<and> image_is_first x"])
      (auto intro: post_weaken [OF product_null_free])
  show ?thesis
    unfolding products_get_list_def catch_500_def
    by (auto simp: attempt_outcome_def elems_def list_all_iff simp del: mapM.simps
        split: outcome.splits attempt.splits prod.splits jv.splits
        intro!: post_intros post_weaken [OF m])
qed

lemma products_get_id_null_free:
  "post (products_get_id rt req)
     (\<lambda>r es. case r of
        Responded x \<Rightarrow>
          status x = 200 \<longrightarrow>
          null_free (get_prop (json x) ''product'') \<and> image_is_first (get_prop (json x) ''product'')
          \<and> (no_variations_column es \<longrightarrow>
               list_all (\<lambda>v. null_free v \<and> image_is_first v)
                 (elems (get_prop (get_prop (json x) ''product'') ''variations'')))
      | _ \<Rightarrow> True)"
  unfolding products_get_id_def catch_500_def
  by (auto simp: attempt_outcome_def product_by_id_def respond_json_def simp del: mapM.simps
      split: outcome.splits attempt.splits prod.splits
      intro!: post_intros post_weaken [OF product_null_free])

lemma variations_get_null_free:
  "post (variations_get rt req)
     (\<lambda>r es. case r of
        Responded x \<Rightarrow> list_all null_free (elems (get_prop (json x) ''variations''))
      | _ \<Rightarrow> True)"
proof -
  have m: "post (mapM (variations_variationWithAccessibleImages rt) vs)
             (\<lambda>r es. \<exists>xs. r = Value xs \<and> (\<forall>x \<in> set xs. null_free x))" for vs
    by (rule post_mapM_each [where R = "\<lambda>x es. null_free x"])
      (auto intro: post_weaken [OF variations_variation_null_free])
  show ?thesis
    unfolding variations_get_def catch_500_def
    by (auto simp: attempt_outcome_def elems_def list_all_iff simp del: mapM.simps
        split: outcome.splits attempt.splits prod.splits jv.splits
        intro!: post_intros post_weaken [OF m])
qed

section \<open>C1: the database operations of a handler\<close>

text \<open>
  C1, as stated, fails. POST / of products.js with one file that uploads well inserts the
  product, uploads the file and then updates the product with the image keys: two database
  operations, with the upload between them.
\<close>

theorem products_post_two_database_operations:
  "map call_name (events_of (products_post example_rt example_request) ()) =
     [''insert'', ''upload'', ''update'', ''getPublicUrl'']"
  by code_simp

text \<open>
  C1, as amended. A run of a handler makes at most as many database operations as
  \<open>max_db_ops\<close> says for its route: one for the list, delete and read handlers and for POST
  of a variation, two for POST, GET /:id and PUT of a product, for PUT of a setting, the two
  setting uploads and the initialisation, three for PUT of a variation; never more than three.
\<close>

theorem handler_database_operations:
  "db_ops (events_of (handler r rt req) w) \<le> max_db_ops r \<and> max_db_ops r \<le> 3"
proof
  show "db_ops (events_of (handler r rt req) w) \<le> max_db_ops r"
    using postD [OF handler_counts, of r rt req w] by simp
  show "max_db_ops r \<le> 3" by (cases r) simp_all
qed

section \<open>C2: public URL first, signed URL as the fallback\<close>

text \<open>
  C2, as stated, fails for the image keys of variations. Where the bucket gives no public URL,
  the URL generation of \<open>variationWithAccessibleImages\<close> makes the public-URL call, makes
  no signed-URL call and returns null.
\<close>

theorem variation_image_has_no_signed_fallback:
  "variation_image_url no_public_rt (JStr ''variations/3/1700000000000_0.png'') () =
     (Value JNull, (),
      [EPublicUrl (JStr ''variations/3/1700000000000_0.png'')
         (Returned (JObj [(''data'', JObj [(''publicUrl'', JNull)])]))])"
  by code_simp

text \<open>
  C2, as amended. Every run of \<open>makeAccessibleUrl\<close> is one of the runs of \<open>mau_run\<close>: for an
  empty key, or a key that is an http(s) URL already, no call is made; otherwise the public-URL
  call comes first, the signed-URL call follows exactly when the public-URL call returned
  without a URL, and it is made once; only after a call has thrown does the \<open>catch\<close> block
  ask for the public URL a second time. The URL generation for a variation image is the
  public-URL call alone.
\<close>

theorem url_generation_runs:
  "mau_run key (outcome_of (makeAccessibleUrl rt key) w) (events_of (makeAccessibleUrl rt key) w)
   \<and> variation_url_run key (outcome_of (variation_image_url rt key) w)
        (events_of (variation_image_url rt key) w)"
  using postD [OF makeAccessibleUrl_runs, of key rt w]
    postD [OF variation_image_url_runs, of key rt w]
  by simp

theorem url_generation_runs_witness:
  "truthy (JStr ''products/7/1_0.jpg'') \<and> \<not> already_url (JStr ''products/7/1_0.jpg'')
   \<and> mau_run (JStr ''products/7/1_0.jpg'')
        (Value (JStr ''https://cdn.example/signed/products/7/1_0.jpg''))
        [EPublicUrl (JStr ''products/7/1_0.jpg'')
           (Returned (JObj [(''data'', JObj [(''publicUrl'', JNull)])])),
         ESignedUrl (JStr ''products/7/1_0.jpg'') 3600
           (Returned (JObj [(''signedURL'', JStr ''https://cdn.example/signed/products/7/1_0.jpg'')],
                      JNull))]
   \<and> variation_url_run (JStr ''products/7/1_0.jpg'') (Value JNull)
        [EPublicUrl (JStr ''products/7/1_0.jpg'')
           (Returned (JObj [(''data'', JObj [(''publicUrl'', JNull)])]))]"
proof -
  let ?k = "JStr ''products/7/1_0.jpg''"
  have o: "outcome_of (makeAccessibleUrl no_public_rt ?k) () =
             Value (JStr ''https://cdn.example/signed/products/7/1_0.jpg'')"
    by code_simp
  have e: "events_of (makeAccessibleUrl no_public_rt ?k) () =
             [EPublicUrl ?k (Returned (JObj [(''data'', JObj [(''publicUrl'', JNull)])])),
              ESignedUrl ?k 3600
                (Returned (JObj [(''signedURL'', JStr ''https://cdn.example/signed/products/7/1_0.jpg'')],
                           JNull))]"
    by code_simp
  have vo: "outcome_of (variation_image_url no_public_rt ?k) () = Value JNull"
    by code_simp
  have ve: "events_of (variation_image_url no_public_rt ?k) () =
              [EPublicUrl ?k (Returned (JObj [(''data'', JObj [(''publicUrl'', JNull)])]))]"
    by code_simp
  have k: "truthy ?k \<and> \<not> already_url ?k"
    by code_simp
  show ?thesis
    using url_generation_runs [of ?k no_public_rt "()"] k unfolding o e vo ve by simp
qed

section \<open>C3: the calls of a route\<close>

text \<open>
  C3, as stated, fails. PUT /:id of the variations router with one file selects the product
  id, uploads the file, selects the stored images and updates the row, and then asks for the
  public URL of each image of the updated row.
\<close>

theorem variations_put_more_than_two_calls:
  "map call_name (events_of (route_run VariationsPut example_rt example_request) ()) =
     [''select'', ''upload'', ''select'', ''update'', ''getPublicUrl'', ''getPublicUrl'']"
  by code_simp

text \<open>
  C3, as amended. A route, run with the middleware of its router, makes at most the database
  calls of its handler (at most three) and, in the settings router, the one table check before
  it, and at most one storage upload for each file the request carries. The calls that make
  URLs for the images of the returned rows come on top and are not bounded by a constant.
\<close>

theorem route_calls_bounded:
  "db_ops (events_of (route_run r rt req) w) \<le> max_db_ops r + (if settings_route r then 1 else 0)
   \<and> uploads (events_of (route_run r rt req) w) \<le> received_files req"
  using postD [OF route_run_counts, of r rt req w] by simp

section \<open>C4: the image references of the read endpoints\<close>




section \<open>C5: null-free images and the singular image\<close>

text \<open>
  C5 holds for the products of GET / and GET /:id and for the variations inside a product
  (\<open>products_get_list_null_free\<close>, \<open>products_get_id_null_free\<close>), and the \<open>images\<close> of the
  variations that the variations router returns hold no null either
  (\<open>variations_get_null_free\<close>). It fails for the singular \<open>image\<close> of those variations: the
  router's copy of \<open>variationWithAccessibleImages\<close> filters the nulls out of \<open>images\<close> and sets
  no \<open>image\<close>, where the copy in products.js does. On the same row, GET /product/:product_id
  answers a variation with \<open>images\<close> and without \<open>image\<close>, and the helper of products.js
  answers it with \<open>image\<close> as the first URL.
\<close>

theorem variations_router_sets_no_image:
  "outcome_of (variations_get example_rt example_request) () =
     Responded \<lparr>status = 200, json = JObj [(''variations'', JArr [
       JObj [(''id'', JNum ''7''), (''product_id'', JNum ''3''), (''name'', JStr ''Camisa''),
             (''images'', JArr [JStr ''https://cdn.example/products/7/1_0.jpg'']),
             (''is_active'', JBool True)]])]\<rparr>
   \<and> outcome_of (variationWithAccessibleImages example_rt example_row) () =
       Value (JObj [(''id'', JNum ''7''), (''product_id'', JNum ''3''), (''name'', JStr ''Camisa''),
                    (''images'', JArr [JStr ''https://cdn.example/products/7/1_0.jpg'']),
                    (''is_active'', JBool True),
                    (''image'', JStr ''https://cdn.example/products/7/1_0.jpg'')])"
  by code_simp

section \<open>C6: the messages of the error responses\<close>

text \<open>
  C6, as stated, fails: where a handler reports an error of the backend, the message is the
  backend's own text. When the insert of POST / of products.js fails, the response is status
  400 with the message of the database, which is none of the handlers' Portuguese messages.
\<close>

theorem database_message_is_passed_on:
  "outcome_of (products_post timeout_rt example_request) () =
     Responded \<lparr>status = 400,
       json = JObj [(''error'', JStr ''canceling statement due to statement timeout'')]\<rparr>
   \<and> ''canceling statement due to statement timeout'' \<notin> set portuguese_literals"
  by code_simp

text \<open>
  C6, as amended. Every response of a handler with a status other than 200 is a JSON object
  whose first property is \<open>error\<close>, and its message is either one of the messages that the
  handlers word themselves, in Portuguese (\<open>portuguese_literals\<close>), or the \<open>message\<close> of an
  error of the same run, passed on as it is: of the error a backend call answered, of the
  exception it threw, or of the exception the handler's own code raised.
\<close>

theorem error_responses:
  assumes "outcome_of (handler r rt req) w = Responded x"
    and "status x \<noteq> 200"
  shows "has_error_prop (json x)
    \<and> (get_prop (json x) ''error'' \<in> JStr ` set portuguese_literals
       \<or> get_prop (json x) ''error''
            \<in> (\<lambda>e. get_prop e ''message'') ` set (reported (events_of (handler r rt req) w)))"
  using postD [OF handler_ends_well, of r rt req w] assms
  by (simp add: ends_well_def error_response_ok_def error_message_ok_def del: get_prop.simps)

theorem error_responses_witness:
  "outcome_of (handler ProductsGetId timeout_rt example_request) () =
     Responded \<lparr>status = 500,
       json = JObj [(''error'', JStr ''canceling statement due to statement timeout'')]\<rparr>
   \<and> has_error_prop (JObj [(''error'', JStr ''canceling statement due to statement timeout'')])
   \<and> (JStr ''canceling statement due to statement timeout'' \<in> JStr ` set portuguese_literals
      \<or> JStr ''canceling statement due to statement timeout''
           \<in> (\<lambda>e. get_prop e ''message'')
               ` set (reported (events_of (handler ProductsGetId timeout_rt example_request) ())))"
proof -
  let ?x = "\<lparr>status = 500,
       json = JObj [(''error'', JStr ''canceling statement due to statement timeout'')]\<rparr>"
  have o: "outcome_of (handler ProductsGetId timeout_rt example_request) () = Responded ?x"
    by code_simp
  have s: "status ?x \<noteq> 200"
    by simp
  have j: "json ?x = JObj [(''error'', JStr ''canceling statement due to statement timeout'')]"
    by simp
  have g: "get_prop (JObj [(''error'', JStr ''canceling statement due to statement timeout'')])
             ''error'' = JStr ''canceling statement due to statement timeout''"
    by simp
  have "has_error_prop (json ?x)
    \<and> (get_prop (json ?x) ''error'' \<in> JStr ` set portuguese_literals
       \<or> get_prop (json ?x) ''error''
            \<in> (\<lambda>e. get_prop e ''message'')
                ` set (reported (events_of (handler ProductsGetId timeout_rt example_request) ())))"
    by (rule error_responses [OF o s])
  then have "has_error_prop (JObj [(''error'', JStr ''canceling statement due to statement timeout'')])
    \<and> (JStr ''canceling statement due to statement timeout'' \<in> JStr ` set portuguese_literals
       \<or> JStr ''canceling statement due to statement timeout''
            \<in> (\<lambda>e. get_prop e ''message'')
                ` set (reported (events_of (handler ProductsGetId timeout_rt example_request) ())))"
    unfolding j g .
  with o show ?thesis
    by (rule conjI)
qed

section \<open>C7: the filters and the ordering of the product list\<close>



section \<open>C8: only active products for a requester who is no admin\<close>

text \<open>
  C8. When the requester, after the token check of the router, is no admin, every database
  query that GET / and GET /:id make carries the predicate \<open>is_active = true\<close>: the products
  query, which is the first call of the run (the list query as built, the query by id unless
  the id is empty), and the query for the variations of the product. What the predicate
  keeps out of the answer is the database's part.
\<close>

theorem non_admin_queries_active_only:
  assumes "\<not> isAdmin (attach_user rt req)"
  shows "list_all active_only (events_of (route_run ProductsGetList rt req) w)
    \<and> list_all active_only (events_of (route_run ProductsGetId rt req) w)
    \<and> first_query (events_of (route_run ProductsGetList rt req) w) =
        (case list_query (attach_user rt req) of Returned q \<Rightarrow> Some q | Raised e \<Rightarrow> None)
    \<and> first_query (events_of (route_run ProductsGetId rt req) w) =
        (if param req = [] then None else Some (product_by_id (attach_user rt req)))"
  using postD [OF products_get_list_queries [where rt = rt and req = "attach_user rt req"],
      where w = w]
    postD [OF products_get_id_queries [where rt = rt and req = "attach_user rt req"],
      where w = w] assms
  by (simp add: route_run_def)

theorem non_admin_queries_active_only_witness:
  "\<not> isAdmin (attach_user example_rt visitor_request)
   \<and> list_all active_only (events_of (route_run ProductsGetList example_rt visitor_request) ())
   \<and> list_all active_only (events_of (route_run ProductsGetId example_rt visitor_request) ())
   \<and> first_query (events_of (route_run ProductsGetId example_rt visitor_request) ()) =
       Some \<lparr>tbl = ''products'', verb = Select ''*'',
              mods = [Eq ''id'' (JStr ''7''), Eq ''is_active'' (JBool True), Single]\<rparr>"
proof -
  have a: "\<not> isAdmin (attach_user example_rt visitor_request)"
    by code_simp
  have p: "param visitor_request \<noteq> []"
    by code_simp
  have q: "product_by_id (attach_user example_rt visitor_request) =
             \<lparr>tbl = ''products'', verb = Select ''*'',
              mods = [Eq ''id'' (JStr ''7''), Eq ''is_active'' (JBool True), Single]\<rparr>"
    by code_simp
  show ?thesis
    using non_admin_queries_active_only [OF a, of "()"] a p q by simp
qed

section \<open>C9: PUT appends the new image keys\<close>

text \<open>
  C9 says what the handlers set out to do: they select the stored images and write them back
  with the new keys appended (\<open>put_update_appends\<close>). The select is awaited for its \<open>data\<close>
  alone, and its error is never read. With a database that stores one image and whose
  selects fail, PUT /:id with one file goes on from an empty list: the update writes the new
  key only, the stored key is gone, and the answer is status 200. This holds for PUT /:id of
  products.js and for PUT /:id of the variations router, which also builds its key with
  \<open>unknown\<close> for the product.
\<close>

theorem failed_select_drops_stored_images:
  "world_after (handler ProductsPut flaky_rt example_request) [JStr ''products/7/1_0.jpg''] =
     [JStr ''products/7/1700000000000_0.png'']
   \<and> outcome_of (handler ProductsPut flaky_rt example_request) [JStr ''products/7/1_0.jpg''] =
       Responded \<lparr>status = 200, json = JObj [(''product'',
         JObj [(''id'', JNum ''7''),
               (''images'', JArr [JStr ''https://cdn.example/products/7/1700000000000_0.png'']),
               (''image'', JStr ''https://cdn.example/products/7/1700000000000_0.png'')])]\<rparr>
   \<and> map call_name (events_of (handler ProductsPut flaky_rt example_request)
         [JStr ''products/7/1_0.jpg'']) =
       [''upload'', ''select'', ''update'', ''getPublicUrl'']
   \<and> selected_images (events_of (handler ProductsPut flaky_rt example_request)
         [JStr ''products/7/1_0.jpg'']) = None
   \<and> world_after (handler VariationsPut flaky_rt example_request) [JStr ''variations/3/1_0.jpg''] =
       [JStr ''variations/unknown/1700000000000_0.png'']
   \<and> outcome_of (handler VariationsPut flaky_rt example_request) [JStr ''variations/3/1_0.jpg''] =
       Responded \<lparr>status = 200, json = JObj [(''variation'',
         JObj [(''id'', JNum ''7''),
               (''images'',
                JArr [JStr ''https://cdn.example/variations/unknown/1700000000000_0.png''])])]\<rparr>"
  by code_simp

section \<open>C10: the settings object of GET /\<close>

text \<open>
  C10, as stated, fails: GET / does not always return a settings object. When the select fails
  with an error that is not one of a missing table, the answer is status 500 with the error's
  message and code.
\<close>

theorem settings_get_database_error:
  "outcome_of (settings_get timeout_rt example_request) () =
     Responded \<lparr>status = 500,
       json = JObj [(''error'', JStr ''canceling statement due to statement timeout''),
                    (''code'', JStr ''57014'')]\<rparr>"
  by code_simp

text \<open>
  C10, as amended. When the select of GET / answers rows without an error, the handler
  responds with status 200 and a settings object in which every key has the value and type of
  its row (of the last row, if there are several), and in which \<open>site_background_type\<close>,
  \<open>site_background_value\<close> and \<open>site_background_video_url\<close>, where the rows have none, have
  the defaults \<open>color\<close>, \<open>#f5f5f5\<close> and the empty string, all of type \<open>text\<close>. When the
  select answers an error that the handler takes for a missing table (the code \<open>42P01\<close> or
  \<open>PGRST116\<close>, or a message that contains \<open>does not exist\<close>, \<open>relation\<close> or the Portuguese
  for it), the handler responds with status 200 and an empty settings object. Every other
  error of the select, with a message that is a string or with none, is answered with status
  500 and the error's message and code.
\<close>

theorem settings_get_answer:
  assumes "db rt settings_query w = (Returned (settings, error), w')"
  shows "(\<not> truthy error \<and> js_or settings (JArr []) = JArr rows \<and> \<not> list_ex nullish rows \<longrightarrow>
            (\<exists>obj. outcome_of (settings_get rt req) w =
                      Responded \<lparr>status = 200, json = JObj [(''settings'', JObj obj)]\<rparr>
               \<and> (\<forall>k. k \<noteq> ''__proto__'' \<longrightarrow> get_prop (JObj obj) k = setting_or_default rows k)))
       \<and> (truthy error \<and> missing_table_error error \<longrightarrow>
            outcome_of (settings_get rt req) w =
              Responded \<lparr>status = 200, json = JObj [(''settings'', JObj [])]\<rparr>)
       \<and> (truthy error \<and> text_message error \<and> \<not> missing_table_error error \<longrightarrow>
            outcome_of (settings_get rt req) w =
              Responded \<lparr>status = 500,
                json = JObj [(''error'', get_prop error ''message''),
                             (''code'', get_prop error ''code'')]\<rparr>)"
  using settings_get_rows [OF assms] settings_get_table_missing [OF assms]
    settings_get_other_error [OF assms]
  by blast

theorem settings_get_answer_witness:
  "db settings_rt settings_query () = (Returned (JArr settings_rows, JNull), ())
   \<and> (\<exists>obj. outcome_of (settings_get settings_rt example_request) () =
               Responded \<lparr>status = 200, json = JObj [(''settings'', JObj obj)]\<rparr>
         \<and> get_prop (JObj obj) ''site_background_type''
             = setting_or_default settings_rows ''site_background_type''
         \<and> get_prop (JObj obj) ''site_background_value'' = default_entry ''#f5f5f5'')
   \<and> missing_table_error (JObj [(''code'', JStr ''PGRST205''),
        (''message'', JStr ''relation public.site_settings does not exist'')])
   \<and> outcome_of (settings_get missing_table_rt example_request) () =
       Responded \<lparr>status = 200, json = JObj [(''settings'', JObj [])]\<rparr>
   \<and> \<not> missing_table_error (JObj [(''code'', JStr ''57014''),
        (''message'', JStr ''canceling statement due to statement timeout'')])
   \<and> outcome_of (settings_get timeout_rt example_request) () =
       Responded \<lparr>status = 500,
         json = JObj [(''error'', JStr ''canceling statement due to statement timeout''),
                      (''code'', JStr ''57014'')]\<rparr>"
proof -
  have d: "db settings_rt settings_query () = (Returned (JArr settings_rows, JNull), ())"
    by code_simp
  have h: "\<not> truthy JNull \<and> js_or (JArr settings_rows) (JArr []) = JArr settings_rows
             \<and> \<not> list_ex nullish settings_rows"
    by code_simp
  have v: "setting_or_default settings_rows ''site_background_value'' = default_entry ''#f5f5f5''"
    by code_simp
  have "\<exists>obj. outcome_of (settings_get settings_rt example_request) () =
                Responded \<lparr>status = 200, json = JObj [(''settings'', JObj obj)]\<rparr>
          \<and> (\<forall>k. k \<noteq> ''__proto__'' \<longrightarrow> get_prop (JObj obj) k = setting_or_default settings_rows k)"
    by (rule settings_get_answer [OF d, of settings_rows example_request,
          THEN conjunct1, THEN mp, OF h])
  then obtain obj where
    o: "outcome_of (settings_get settings_rt example_request) () =
          Responded \<lparr>status = 200, json = JObj [(''settings'', JObj obj)]\<rparr>"
    and l: "\<forall>k. k \<noteq> ''__proto__'' \<longrightarrow> get_prop (JObj obj) k = setting_or_default settings_rows k"
    by (elim exE conjE)
  have t': "get_prop (JObj obj) ''site_background_type''
              = setting_or_default settings_rows ''site_background_type''"
    using l [rule_format, of "''site_background_type''"] by simp
  have v': "get_prop (JObj obj) ''site_background_value'' = default_entry ''#f5f5f5''"
    using l [rule_format, of "''site_background_value''"] v by simp
  let ?e = "JObj [(''code'', JStr ''PGRST205''),
        (''message'', JStr ''relation public.site_settings does not exist'')]"
  have dm: "db missing_table_rt settings_query () = (Returned (JNull, ?e), ())"
    by code_simp
  have hm: "truthy ?e \<and> missing_table_error ?e"
    by code_simp
  have m: "outcome_of (settings_get missing_table_rt example_request) () =
             Responded \<lparr>status = 200, json = JObj [(''settings'', JObj [])]\<rparr>"
    by (rule settings_get_answer [OF dm, of "[]" example_request,
          THEN conjunct2, THEN conjunct1, THEN mp, OF hm])
  have e: "\<exists>obj. outcome_of (settings_get settings_rt example_request) () =
               Responded \<lparr>status = 200, json = JObj [(''settings'', JObj obj)]\<rparr>
         \<and> get_prop (JObj obj) ''site_background_type''
             = setting_or_default settings_rows ''site_background_type''
         \<and> get_prop (JObj obj) ''site_background_value'' = default_entry ''#f5f5f5''"
    by (rule exI [of _ obj], intro conjI o t' v')
  let ?t = "JObj [(''code'', JStr ''57014''),
        (''message'', JStr ''canceling statement due to statement timeout'')]"
  have dt: "db timeout_rt settings_query () = (Returned (JNull, ?t), ())"
    by code_simp
  have ht: "truthy ?t \<and> text_message ?t \<and> \<not> missing_table_error ?t"
    by code_simp
  have "outcome_of (settings_get timeout_rt example_request) () =
          Responded \<lparr>status = 500,
            json = JObj [(''error'', get_prop ?t ''message''), (''code'', get_prop ?t ''code'')]\<rparr>"
    by (rule settings_get_answer [OF dt, of "[]" example_request,
          THEN conjunct2, THEN conjunct2, THEN mp, OF ht])
  then have t: "outcome_of (settings_get timeout_rt example_request) () =
       Responded \<lparr>status = 500,
         json = JObj [(''error'', JStr ''canceling statement due to statement timeout''),
                      (''code'', JStr ''57014'')]\<rparr>"
    by simp
  show ?thesis
    by (intro conjI d e conjunct2 [OF hm] m conjunct2 [OF conjunct2 [OF ht]] t)
qed

end
